theory Spec2Isabelle
  imports Complex_Main
begin

section \<open>Conventions\<close>

text \<open>
  The sources are C++. A \<^verbatim>\<open>double\<close> is modelled as a \<^typ>\<open>real\<close>: the theorems
  below are about the formulas the code evaluates, in exact arithmetic, and say nothing
  about rounding, overflow, infinities or NaN. HOL's \<open>x / 0 = 0\<close> is not what IEEE
  arithmetic returns, so every theorem about a quotient assumes that its divisor is
  not zero.

  Member names lose their trailing underscore (\<^verbatim>\<open>atol_\<close> is \<open>atol\<close>), which an
  Isabelle name cannot end with. A member function that can assign to its object takes
  the object and returns it. A call into another part of the code base (the state, the
  field evaluators, the boundary conditions, the mimetic operator) is a field of the
  record \<open>collaborators\<close>, passed as the first argument \<open>X\<close>. Diagnostic output (the
  blocks guarded by the verbosity level) is left out.
\<close>

section \<open>Constant equation of state (\<^verbatim>\<open>eos_constant.hh\<close>)\<close>

record EOSConstant =
  M :: real
  rho :: real

text \<open>
  \<^verbatim>\<open>virtual double Density(double T, double p) { return rho_/M_; }\<close> and its two
  derivatives are not \<^verbatim>\<open>const\<close> member functions, so each returns its value together
  with the object after the call.
\<close>

definition Density :: "EOSConstant \<Rightarrow> real \<Rightarrow> real \<Rightarrow> real \<times> EOSConstant" where
  "Density eos T p = (rho eos / M eos, eos)"

definition DDensityDT :: "EOSConstant \<Rightarrow> real \<Rightarrow> real \<Rightarrow> real \<times> EOSConstant" where
  "DDensityDT eos T p = (0, eos)"

definition DDensityDp :: "EOSConstant \<Rightarrow> real \<Rightarrow> real \<Rightarrow> real \<times> EOSConstant" where
  "DDensityDp eos T p = (0, eos)"

text \<open>\<^verbatim>\<open>EOSConstant::InitializeFromPlist_\<close>: the molar mass in kg/mol, or else in g/mol
  (default \<open>18.0153\<close>) times \<^verbatim>\<open>1.e-3\<close>; the density in mol/m^3 times the molar mass, or
  else in kg/m^3 (default \<open>1000\<close>). The parameter list holds doubles by name; \<open>get_or\<close>
  is \<^verbatim>\<open>get<double>(name, default)\<close>.\<close>

definition get_or :: "(string \<rightharpoonup> real) \<Rightarrow> string \<Rightarrow> real \<Rightarrow> real" where
  "get_or plist n d = (case plist n of None \<Rightarrow> d | Some v \<Rightarrow> v)"

definition InitializeFromPlist :: "(string \<rightharpoonup> real) \<Rightarrow> EOSConstant" where
  "InitializeFromPlist plist =
     (let M' = (case plist ''Molar mass [kg/mol]'' of
                  Some v \<Rightarrow> v
                | None \<Rightarrow> get_or plist ''Molar mass [g/mol]'' 18.0153 * 0.001);
          rho' = (case plist ''Density [mol/m^3]'' of
                    Some v \<Rightarrow> v * M'
                  | None \<Rightarrow> get_or plist ''Density [kg/m^3]'' 1000)
      in \<lparr>M = M', rho = rho'\<rparr>)"

definition molar_mass :: "EOSConstant \<Rightarrow> real" where
  "molar_mass eos = M eos"

definition is_molar_basis :: "EOSConstant \<Rightarrow> bool" where
  "is_molar_basis eos = True"

section \<open>Richards process kernel: data\<close>

text \<open>How a call can end without a result: a failed \<^verbatim>\<open>ASSERT\<close>, or an index past the
  end of a vector (undefined behaviour in C++).\<close>

datatype failure = AssertionFailed | OutOfRange

text \<open>A composite vector holds one value per cell and one per face; a tree vector wraps
  one composite vector (\<^verbatim>\<open>u->data()\<close>).\<close>

record CompositeVector =
  cell :: "real list"
  face :: "real list"

record TreeVector =
  data :: CompositeVector

text \<open>\<^verbatim>\<open>v("cell", c)\<close>: the read is checked here, since nothing in the code does.\<close>

definition cell_at :: "CompositeVector \<Rightarrow> nat \<Rightarrow> failure + real" where
  "cell_at v c = (if c < length (cell v) then Inr (cell v ! c) else Inl OutOfRange)"

text \<open>\<^verbatim>\<open>res->PutScalar(0.0)\<close>: every entry becomes zero, the shape stays.\<close>

definition PutScalar :: "real \<Rightarrow> CompositeVector \<Rightarrow> CompositeVector" where
  "PutScalar a v = \<lparr>cell = map (\<lambda>x. a) (cell v), face = map (\<lambda>x. a) (face v)\<rparr>"

text \<open>A state snapshot: its time, its fields by name (\<^verbatim>\<open>GetFieldData\<close>) and its constant
  vectors by name (\<^verbatim>\<open>GetConstantVectorData\<close>). Every field the kernel asks for is taken
  to be registered, so the tables are total.\<close>

record State =
  time :: real
  field_data :: "string \<Rightarrow> CompositeVector"
  constant_vector_data :: "string \<Rightarrow> real list"

text \<open>The mimetic operator \<^verbatim>\<open>preconditioner_\<close>: the cell-cell diagonal
  \<^verbatim>\<open>Acc_cells()\<close>, the cell right-hand side \<^verbatim>\<open>Fc_cells()\<close>, and everything else it holds
  (the face blocks, the assembled matrices, the Schur complement) as \<open>blocks\<close>.\<close>

record 'op MatrixMFD =
  Acc_cells :: "real list"
  Fc_cells :: "real list"
  blocks :: 'op

text \<open>The members of \<^verbatim>\<open>Richards\<close> that the three callbacks touch. \<open>'bc\<close> is the type of a
  boundary-condition object, \<open>'mk\<close> of the boundary markers.\<close>

record ('bc, 'mk, 'op) Richards =
  niter :: int
  S_inter :: State
  S_next :: State
  atol :: real
  rtol :: real
  atol0 :: real
  rtol0 :: real
  continuation_to_ss :: bool
  pk_name :: string
  pk_key :: string
  bc_pressure :: 'bc
  bc_flux :: 'bc
  bc_markers :: 'mk
  bc_values :: "real list"
  assemble_preconditioner :: bool
  preconditioner :: "'op MatrixMFD"

text \<open>The calls whose code is elsewhere. A field evaluator
  (\<^verbatim>\<open>HasFieldChanged\<close>, \<^verbatim>\<open>HasFieldDerivativeChanged\<close>) recomputes fields of a state and
  returns the new field table. \<open>HAVE_MPI\<close> is the build flag of that name.\<close>

record ('bc, 'mk, 'op) collaborators =
  solution_to_state :: "TreeVector \<Rightarrow> State \<Rightarrow> State"
  PKDefaultBase_solution_to_state :: "TreeVector \<Rightarrow> State \<Rightarrow> State"
  Compute :: "real \<Rightarrow> 'bc \<Rightarrow> 'bc"
  UpdateBoundaryConditions :: "('bc, 'mk, 'op) Richards \<Rightarrow> ('bc, 'mk, 'op) Richards"
  ApplyDiffusion ::
    "('bc, 'mk, 'op) Richards \<Rightarrow> CompositeVector \<Rightarrow> ('bc, 'mk, 'op) Richards \<times> CompositeVector"
  AddAccumulation ::
    "('bc, 'mk, 'op) Richards \<Rightarrow> CompositeVector \<Rightarrow> ('bc, 'mk, 'op) Richards \<times> CompositeVector"
  UpdatePermeabilityData :: "('bc, 'mk, 'op) Richards \<Rightarrow> ('bc, 'mk, 'op) Richards"
  CreateMFDstiffnessMatrices :: "CompositeVector \<Rightarrow> 'op MatrixMFD \<Rightarrow> 'op MatrixMFD"
  CreateMFDrhsVectors :: "'op MatrixMFD \<Rightarrow> 'op MatrixMFD"
  AddGravityFluxes ::
    "real list \<Rightarrow> CompositeVector \<Rightarrow> CompositeVector \<Rightarrow> 'op MatrixMFD \<Rightarrow> 'op MatrixMFD"
  HasFieldChanged :: "string \<Rightarrow> string \<Rightarrow> State \<Rightarrow> string \<Rightarrow> CompositeVector"
  HasFieldDerivativeChanged ::
    "string \<Rightarrow> string \<Rightarrow> string \<Rightarrow> State \<Rightarrow> string \<Rightarrow> CompositeVector"
  ApplyBoundaryConditions :: "'mk \<Rightarrow> real list \<Rightarrow> 'op MatrixMFD \<Rightarrow> 'op MatrixMFD"
  AssembleGlobalMatrices :: "'op MatrixMFD \<Rightarrow> 'op MatrixMFD"
  ComputeSchurComplement :: "'mk \<Rightarrow> real list \<Rightarrow> 'op MatrixMFD \<Rightarrow> 'op MatrixMFD"
  UpdatePreconditioner :: "'op MatrixMFD \<Rightarrow> 'op MatrixMFD"
  HAVE_MPI :: bool

section \<open>The error norm (\<^verbatim>\<open>Richards::enorm\<close>)\<close>

text \<open>\<^verbatim>\<open>MPI_Allreduce(&buf, &enorm_val, 1, MPI_DOUBLE, MPI_MAX, MPI_COMM_WORLD)\<close>: the
  maximum of this rank's value and the values \<open>peers\<close> of the other ranks.\<close>

definition MPI_Allreduce_MAX :: "real \<Rightarrow> real list \<Rightarrow> real" where
  "MPI_Allreduce_MAX buf peers = fold max peers buf"

text \<open>Lines 285 to 288: the tolerances, recomputed when \<^verbatim>\<open>continuation_to_ss_\<close> is set.
  \<^verbatim>\<open>1.e5\<close> is written \<open>100000\<close>.\<close>

definition update_tolerances :: "('bc, 'mk, 'op) Richards \<Rightarrow> ('bc, 'mk, 'op) Richards" where
  "update_tolerances pk =
     (if continuation_to_ss pk
      then pk\<lparr>atol := atol0 pk + 100000 * atol0 pk / (1 + time (S_next pk)),
              rtol := rtol0 pk + 100000 * rtol0 pk / (1 + time (S_next pk))\<rparr>
      else pk)"

text \<open>The per-cell term of line 300,
  \<^verbatim>\<open>abs(h*res("cell",c)) / (atol_+rtol_*abs(wc("cell",c)))\<close>, with \<^verbatim>\<open>abs\<close> the absolute
  value of a double.\<close>

definition cell_error :: "real \<Rightarrow> real \<Rightarrow> real \<Rightarrow> real \<Rightarrow> real \<Rightarrow> real" where
  "cell_error h a r du_c wc_c = \<bar>h * du_c\<bar> / (a + r * \<bar>wc_c\<bar>)"

text \<open>The loop of lines 299 to 302 over the cell indices still to visit, \<open>e\<close> being
  \<^verbatim>\<open>enorm_cell\<close>.\<close>

fun enorm_cell_loop ::
  "real \<Rightarrow> real \<Rightarrow> real \<Rightarrow> CompositeVector \<Rightarrow> CompositeVector \<Rightarrow> nat list \<Rightarrow> real
     \<Rightarrow> failure + real" where
  "enorm_cell_loop h a r res wc [] e = Inr e"
| "enorm_cell_loop h a r res wc (c # cs) e =
     (case cell_at res c of
        Inl x \<Rightarrow> Inl x
      | Inr du_c \<Rightarrow>
          (case cell_at wc c of
             Inl x \<Rightarrow> Inl x
           | Inr wc_c \<Rightarrow>
               enorm_cell_loop h a r res wc cs (max e (cell_error h a r du_c wc_c))))"

text \<open>\<^verbatim>\<open>double Richards::enorm(u, du)\<close>. The result comes with the kernel after the call:
  the tolerances and the water content of the new state may have been recomputed. The
  face loop is commented out in the source, so \<^verbatim>\<open>enorm_face\<close> stays \<open>0\<close>.\<close>

definition enorm ::
  "('bc, 'mk, 'op) collaborators \<Rightarrow> real list \<Rightarrow> ('bc, 'mk, 'op) Richards
     \<Rightarrow> TreeVector \<Rightarrow> TreeVector \<Rightarrow> failure + real \<times> ('bc, 'mk, 'op) Richards" where
  "enorm X peers pk u du =
     (let pk1 = update_tolerances pk;
          pk2 = pk1\<lparr>S_next := (S_next pk1)
                  \<lparr>field_data := HasFieldChanged X ''water_content'' (pk_name pk1) (S_next pk1)\<rparr>\<rparr>;
          wc = field_data (S_next pk2) ''water_content'';
          res = data du;
          h = time (S_next pk2) - time (S_inter pk2);
          ncells = length (cell res)
      in case enorm_cell_loop h (atol pk2) (rtol pk2) res wc [0..<ncells] 0 of
           Inl x \<Rightarrow> Inl x
         | Inr enorm_cell \<Rightarrow>
             (let enorm_face = 0;
                  enorm_val = max enorm_face enorm_cell
              in Inr (if HAVE_MPI X then MPI_Allreduce_MAX enorm_val peers else enorm_val,
                      pk2)))"

text \<open>Names for what the norm reads, used to state its properties: the water content
  after the evaluator has run (line 292), the step size (line 295), and the kernel after
  the call.\<close>

definition enorm_wc :: "('bc, 'mk, 'op) collaborators \<Rightarrow> ('bc, 'mk, 'op) Richards \<Rightarrow> real list" where
  "enorm_wc X pk =
     cell (HasFieldChanged X ''water_content'' (pk_name pk) (S_next pk) ''water_content'')"

definition enorm_h :: "('bc, 'mk, 'op) Richards \<Rightarrow> real" where
  "enorm_h pk = time (S_next pk) - time (S_inter pk)"

definition enorm_kernel ::
  "('bc, 'mk, 'op) collaborators \<Rightarrow> ('bc, 'mk, 'op) Richards \<Rightarrow> ('bc, 'mk, 'op) Richards" where
  "enorm_kernel X pk =
     (update_tolerances pk)\<lparr>S_next := (S_next pk)
        \<lparr>field_data := HasFieldChanged X ''water_content'' (pk_name pk) (S_next pk)\<rparr>\<rparr>"

text \<open>The error term of cell \<open>c\<close>, as line 300 computes it in a call on \<open>pk\<close> and \<open>du\<close>.\<close>

definition enorm_term ::
  "('bc, 'mk, 'op) collaborators \<Rightarrow> ('bc, 'mk, 'op) Richards \<Rightarrow> TreeVector \<Rightarrow> nat \<Rightarrow> real" where
  "enorm_term X pk du c =
     cell_error (enorm_h pk) (atol (enorm_kernel X pk)) (rtol (enorm_kernel X pk))
       (cell (data du) ! c) (enorm_wc X pk ! c)"

text \<open>What the other ranks add to the reduction: nothing in a build without MPI.\<close>

definition others :: "('bc, 'mk, 'op) collaborators \<Rightarrow> real list \<Rightarrow> real list" where
  "others X peers = (if HAVE_MPI X then peers else [])"

section \<open>The residual (\<^verbatim>\<open>Richards::fun\<close>)\<close>

text \<open>Modelled from the spec: the \<^verbatim>\<open>ASSERT\<close> macro, whose header is not among the sources.
  The spec calls a violated contract a fatal assertion: a false condition ends the call.\<close>

definition ASSERT :: "bool \<Rightarrow> failure + unit" where
  "ASSERT b = (if b then Inr () else Inl AssertionFailed)"

text \<open>Lines 112 to 118: the new solution goes into the next state, the boundary
  conditions are recomputed at \<open>t_new\<close>.\<close>

definition fun_update_state ::
  "('bc, 'mk, 'op) collaborators \<Rightarrow> real \<Rightarrow> TreeVector \<Rightarrow> ('bc, 'mk, 'op) Richards
     \<Rightarrow> ('bc, 'mk, 'op) Richards" where
  "fun_update_state X t_new u_new pk =
     (let pk1 = pk\<lparr>S_next := solution_to_state X u_new (S_next pk)\<rparr>;
          pk2 = pk1\<lparr>bc_pressure := Compute X t_new (bc_pressure pk1)\<rparr>;
          pk3 = pk2\<lparr>bc_flux := Compute X t_new (bc_flux pk2)\<rparr>
      in UpdateBoundaryConditions X pk3)"

text \<open>\<^verbatim>\<open>void Richards::fun(t_old, t_new, u_old, u_new, g)\<close>, named \<open>Richards_fun\<close>
  since \<open>fun\<close> is a keyword. It returns the residual vector \<open>g\<close> and the kernel after
  the call. The step \<open>h\<close> is computed at line 95 and used in diagnostic output only.\<close>

definition Richards_fun ::
  "('bc, 'mk, 'op) collaborators \<Rightarrow> real \<Rightarrow> real \<Rightarrow> TreeVector \<Rightarrow> TreeVector \<Rightarrow> TreeVector
     \<Rightarrow> ('bc, 'mk, 'op) Richards \<Rightarrow> failure + TreeVector \<times> ('bc, 'mk, 'op) Richards" where
  "Richards_fun X t_old t_new u_old u_new g pk =
     (let pk0 = pk\<lparr>niter := niter pk + 1\<rparr> in
      case ASSERT (time (S_inter pk0) = t_old) of
        Inl x \<Rightarrow> Inl x
      | Inr _ \<Rightarrow>
     (case ASSERT (time (S_next pk0) = t_new) of
        Inl x \<Rightarrow> Inl x
      | Inr _ \<Rightarrow>
     (let h = t_new - t_old;
          pk4 = fun_update_state X t_new u_new pk0;
          res = PutScalar 0 (data g);
          (pk5, res1) = ApplyDiffusion X pk4 res;
          (pk6, res2) = AddAccumulation X pk5 res1
      in Inr (g\<lparr>data := res2\<rparr>, pk6))))"

section \<open>The preconditioner update (\<^verbatim>\<open>Richards::update_precon\<close>)\<close>

text \<open>Lines 209 to 231, after the assertion: the state takes the iterate \<open>up\<close>, the
  relative permeability and the boundary conditions are recomputed, and the operator gets
  its stiffness matrices, right-hand sides and gravity fluxes.\<close>

definition update_precon_operator ::
  "('bc, 'mk, 'op) collaborators \<Rightarrow> TreeVector \<Rightarrow> ('bc, 'mk, 'op) Richards
     \<Rightarrow> ('bc, 'mk, 'op) Richards" where
  "update_precon_operator X up pk =
     (let pk1 = pk\<lparr>S_next := PKDefaultBase_solution_to_state X up (S_next pk)\<rparr>;
          pk2 = UpdatePermeabilityData X pk1;
          pk3 = pk2\<lparr>bc_pressure := Compute X (time (S_next pk2)) (bc_pressure pk2)\<rparr>;
          pk4 = pk3\<lparr>bc_flux := Compute X (time (S_next pk3)) (bc_flux pk3)\<rparr>;
          pk5 = UpdateBoundaryConditions X pk4;
          rel_perm = field_data (S_next pk5) ''numerical_rel_perm'';
          rho = field_data (S_next pk5) ''mass_density_liquid'';
          gvec = constant_vector_data (S_next pk5) ''gravity'';
          P1 = CreateMFDstiffnessMatrices X rel_perm (preconditioner pk5);
          P2 = CreateMFDrhsVectors X P1;
          P3 = AddGravityFluxes X gvec rel_perm rho P2
      in pk5\<lparr>preconditioner := P3\<rparr>)"

text \<open>The loop of lines 247 to 251 over the cell indices still to visit:
  \<^verbatim>\<open>Acc_cells[c] += dwc_dp(c) / h; Fc_cells[c] += pres(c) * dwc_dp(c) / h\<close>.\<close>

fun update_cell_cell_block ::
  "CompositeVector \<Rightarrow> CompositeVector \<Rightarrow> real \<Rightarrow> nat list \<Rightarrow> 'op MatrixMFD
     \<Rightarrow> failure + 'op MatrixMFD" where
  "update_cell_cell_block dwc_dp pres h [] P = Inr P"
| "update_cell_cell_block dwc_dp pres h (c # cs) P =
     (case cell_at dwc_dp c of
        Inl x \<Rightarrow> Inl x
      | Inr d \<Rightarrow>
          (case cell_at pres c of
             Inl x \<Rightarrow> Inl x
           | Inr p \<Rightarrow>
               if c < length (Acc_cells P) \<and> c < length (Fc_cells P)
               then update_cell_cell_block dwc_dp pres h cs
                      (P\<lparr>Acc_cells := (Acc_cells P)[c := Acc_cells P ! c + d / h],
                         Fc_cells := (Fc_cells P)[c := Fc_cells P ! c + p * d / h]\<rparr>)
               else Inl OutOfRange))"

text \<open>Lines 235 to 242: the field evaluator of the water content is asked to bring the
  derivative with respect to the primary variable up to date, and the derivative and the
  pressure are read from the state.\<close>

definition accumulation_fields ::
  "('bc, 'mk, 'op) collaborators \<Rightarrow> ('bc, 'mk, 'op) Richards \<Rightarrow> string \<Rightarrow> CompositeVector" where
  "accumulation_fields X pk =
     HasFieldDerivativeChanged X ''water_content'' (pk_name pk) (pk_key pk) (S_next pk)"

definition dwc_dp_field ::
  "('bc, 'mk, 'op) collaborators \<Rightarrow> ('bc, 'mk, 'op) Richards \<Rightarrow> CompositeVector" where
  "dwc_dp_field X pk = accumulation_fields X pk (''dwater_content_d'' @ pk_key pk)"

definition pres_field ::
  "('bc, 'mk, 'op) collaborators \<Rightarrow> ('bc, 'mk, 'op) Richards \<Rightarrow> CompositeVector" where
  "pres_field X pk = accumulation_fields X pk (pk_key pk)"

text \<open>Lines 233 to 251: the accumulation terms.\<close>

definition update_precon_accumulation ::
  "('bc, 'mk, 'op) collaborators \<Rightarrow> real \<Rightarrow> ('bc, 'mk, 'op) Richards
     \<Rightarrow> failure + ('bc, 'mk, 'op) Richards" where
  "update_precon_accumulation X h pk =
     (let pk1 = pk\<lparr>S_next := (S_next pk)\<lparr>field_data := accumulation_fields X pk\<rparr>\<rparr>;
          dwc_dp = dwc_dp_field X pk;
          pres = pres_field X pk
      in case update_cell_cell_block dwc_dp pres h [0..<length (cell dwc_dp)]
                (preconditioner pk1) of
           Inl x \<Rightarrow> Inl x
         | Inr P \<Rightarrow> Inr (pk1\<lparr>preconditioner := P\<rparr>))"

text \<open>Lines 253 to 260: boundary conditions on the operator, and the assembly when
  \<^verbatim>\<open>assemble_preconditioner_\<close> is set.\<close>

definition update_precon_assemble ::
  "('bc, 'mk, 'op) collaborators \<Rightarrow> ('bc, 'mk, 'op) Richards \<Rightarrow> ('bc, 'mk, 'op) Richards" where
  "update_precon_assemble X pk =
     (let P1 = ApplyBoundaryConditions X (bc_markers pk) (bc_values pk) (preconditioner pk);
          P2 = (if assemble_preconditioner pk
                then UpdatePreconditioner X
                       (ComputeSchurComplement X (bc_markers pk) (bc_values pk)
                          (AssembleGlobalMatrices X P1))
                else P1)
      in pk\<lparr>preconditioner := P2\<rparr>)"

text \<open>\<^verbatim>\<open>void Richards::update_precon(t, up, h)\<close>.\<close>

definition update_precon ::
  "('bc, 'mk, 'op) collaborators \<Rightarrow> real \<Rightarrow> TreeVector \<Rightarrow> real \<Rightarrow> ('bc, 'mk, 'op) Richards
     \<Rightarrow> failure + ('bc, 'mk, 'op) Richards" where
  "update_precon X t up h pk =
     (case ASSERT (time (S_next pk) = t) of
        Inl x \<Rightarrow> Inl x
      | Inr _ \<Rightarrow>
          (case update_precon_accumulation X h (update_precon_operator X up pk) of
             Inl x \<Rightarrow> Inl x
           | Inr pk' \<Rightarrow> Inr (update_precon_assemble X pk')))"

section \<open>A one-cell configuration for the examples\<close>

text \<open>Modelled from the spec: a set of collaborators for the examples. The state,
  operator and evaluator code is not among the sources; each field follows the spec's
  words. ``Propagate u into the state'': the iterate becomes the field \<open>pressure\<close>.
  ``Lazy recomputation of derived fields'': an evaluator with nothing to recompute hands
  back the field table. The accumulation term is ``(wc_new - wc_old)/h per cell''.
  ``Build discrete stiffness/flux matrices'': what the discretisation yields on a mesh is
  not modelled, so the operator carries as its \<open>blocks\<close> the cell diagonal and the cell
  right-hand side that building produces, and the two \<^verbatim>\<open>Create\<close> calls write them into
  \<open>Acc_cells\<close> and \<open>Fc_cells\<close>. Gravity is the empty vector and adds nothing; in the
  examples the diffusion term and the boundary conditions add nothing either. The spec
  leaves open whether the real \<^verbatim>\<open>Create\<close> calls start from the old contents of
  \<open>Acc_cells\<close> and \<open>Fc_cells\<close>; these collaborators serve the examples only, and every
  theorem is stated for arbitrary collaborators.\<close>

definition spec_solution_to_state :: "TreeVector \<Rightarrow> State \<Rightarrow> State" where
  "spec_solution_to_state u S = S\<lparr>field_data := (field_data S)(''pressure'' := data u)\<rparr>"

definition spec_AddAccumulation ::
  "(unit, unit, real list \<times> real list) Richards \<Rightarrow> CompositeVector
     \<Rightarrow> (unit, unit, real list \<times> real list) Richards \<times> CompositeVector" where
  "spec_AddAccumulation pk res =
     (let wc_new = cell (field_data (S_next pk) ''water_content'');
          wc_old = cell (field_data (S_inter pk) ''water_content'');
          h = time (S_next pk) - time (S_inter pk)
      in (pk, res\<lparr>cell := map (\<lambda>(g, w1, w0). g + (w1 - w0) / h)
                              (zip (cell res) (zip wc_new wc_old))\<rparr>))"

definition spec_collaborators :: "(unit, unit, real list \<times> real list) collaborators" where
  "spec_collaborators =
     \<lparr>solution_to_state = spec_solution_to_state,
      PKDefaultBase_solution_to_state = spec_solution_to_state,
      Compute = (\<lambda>t bc. bc),
      UpdateBoundaryConditions = (\<lambda>pk. pk),
      ApplyDiffusion = (\<lambda>pk res. (pk, res)),
      AddAccumulation = spec_AddAccumulation,
      UpdatePermeabilityData = (\<lambda>pk. pk),
      CreateMFDstiffnessMatrices = (\<lambda>rel_perm P. P\<lparr>Acc_cells := fst (blocks P)\<rparr>),
      CreateMFDrhsVectors = (\<lambda>P. P\<lparr>Fc_cells := snd (blocks P)\<rparr>),
      AddGravityFluxes = (\<lambda>gvec rel_perm rho P. P),
      HasFieldChanged = (\<lambda>evaluator requester S. field_data S),
      HasFieldDerivativeChanged = (\<lambda>evaluator requester wrt S. field_data S),
      ApplyBoundaryConditions = (\<lambda>markers values P. P),
      AssembleGlobalMatrices = (\<lambda>P. P),
      ComputeSchurComplement = (\<lambda>markers values P. P),
      UpdatePreconditioner = (\<lambda>P. P),
      HAVE_MPI = True\<rparr>"

text \<open>A vector over one cell and no face; a state at time \<open>t\<close> with pressure \<open>p\<close>, water
  content \<open>w\<close> and derivative \<open>d\<close> of the water content in that cell; a kernel between
  the times \<open>t0\<close> and \<open>t1\<close> with nominal tolerances \<open>a\<close> and \<open>r\<close>, whose operator is
  built with the diagonal \<open>5\<close> and the right-hand side \<open>7\<close>.\<close>

definition one_cell :: "real \<Rightarrow> CompositeVector" where
  "one_cell x = \<lparr>cell = [x], face = []\<rparr>"

definition one_cell_state :: "real \<Rightarrow> real \<Rightarrow> real \<Rightarrow> real \<Rightarrow> State" where
  "one_cell_state t p w d =
     \<lparr>time = t,
      field_data = (\<lambda>n. if n = ''pressure'' then one_cell p
                         else if n = ''water_content'' then one_cell w
                         else if n = ''dwater_content_dpressure'' then one_cell d
                         else \<lparr>cell = [], face = []\<rparr>),
      constant_vector_data = (\<lambda>n. [])\<rparr>"

definition one_cell_pk ::
  "real \<Rightarrow> real \<Rightarrow> real \<Rightarrow> real \<Rightarrow> bool \<Rightarrow> real
     \<Rightarrow> (unit, unit, real list \<times> real list) Richards" where
  "one_cell_pk t0 t1 a r continuation w =
     \<lparr>niter = 0,
      S_inter = one_cell_state t0 2 4 1,
      S_next = one_cell_state t1 3 w 1,
      atol = a, rtol = r, atol0 = a, rtol0 = r,
      continuation_to_ss = continuation,
      pk_name = ''flow'', pk_key = ''pressure'',
      bc_pressure = (), bc_flux = (), bc_markers = (), bc_values = [],
      assemble_preconditioner = True,
      preconditioner = \<lparr>Acc_cells = [0], Fc_cells = [0], blocks = ([5], [7])\<rparr>\<rparr>"

section \<open>Properties of the constant equation of state\<close>

text \<open>
  Claim C9. For the constant equation of state with a molar mass that is not zero,
  \<open>Density\<close> returns the same value \<open>rho / M\<close> for every temperature and pressure,
  \<open>DDensityDT\<close> and \<open>DDensityDp\<close> return \<open>0\<close>, these are the partial derivatives of
  \<open>Density\<close> in \<open>T\<close> and in \<open>p\<close>, and none of the three calls changes the object.
\<close>

theorem EOSConstant_density_constant:
  assumes "M eos \<noteq> 0"
  shows "fst (Density eos T p) = rho eos / M eos
   \<and> fst (Density eos T p) = fst (Density eos T' p')
   \<and> fst (DDensityDT eos T p) = 0
   \<and> fst (DDensityDp eos T p) = 0
   \<and> ((\<lambda>x. fst (Density eos x p)) has_real_derivative fst (DDensityDT eos T p)) (at T)
   \<and> ((\<lambda>x. fst (Density eos T x)) has_real_derivative fst (DDensityDp eos T p)) (at p)
   \<and> snd (Density eos T p) = eos
   \<and> snd (DDensityDT eos T p) = eos
   \<and> snd (DDensityDp eos T p) = eos"
  by (simp add: Density_def DDensityDT_def DDensityDp_def)

text \<open>Water, as the constructor sets it up from an empty parameter list: the density is
  \<open>1000 / 0.0180153\<close> at \<open>(T, p) = (280, 101325)\<close> as at \<open>(300, 0)\<close>.\<close>

lemma water_defaults:
  "InitializeFromPlist Map.empty = \<lparr>M = 180153 / 10000000, rho = 1000\<rparr>"
  by (simp add: InitializeFromPlist_def get_or_def)

theorem EOSConstant_density_constant_witness:
  "M (InitializeFromPlist Map.empty) \<noteq> 0
   \<and> fst (Density (InitializeFromPlist Map.empty) 280 101325) = 1000 / (180153 / 10000000)
   \<and> fst (Density (InitializeFromPlist Map.empty) 280 101325)
       = fst (Density (InitializeFromPlist Map.empty) 300 0)
   \<and> fst (DDensityDT (InitializeFromPlist Map.empty) 280 101325) = 0
   \<and> fst (DDensityDp (InitializeFromPlist Map.empty) 280 101325) = 0
   \<and> snd (Density (InitializeFromPlist Map.empty) 280 101325) = InitializeFromPlist Map.empty"
proof -
  have m: "M (InitializeFromPlist Map.empty) \<noteq> 0"
    by (simp add: water_defaults)
  have r: "rho (InitializeFromPlist Map.empty) / M (InitializeFromPlist Map.empty)
             = 1000 / (180153 / 10000000)"
    by (simp add: water_defaults)
  show ?thesis
    using EOSConstant_density_constant [OF m, of 280 101325 300 0] m
    unfolding r by blast
qed

section \<open>Properties of the error norm\<close>

subsection \<open>The cell loop and the reduction\<close>

lemma enorm_cell_loop_fold:
  "\<forall>c\<in>set cs. c < length (cell res) \<and> c < length (cell wc) \<Longrightarrow>
   enorm_cell_loop h a r res wc cs e =
     Inr (fold max (map (\<lambda>c. cell_error h a r (cell res ! c) (cell wc ! c)) cs) e)"
  by (induction cs arbitrary: e) (simp_all add: cell_at_def max.commute)

lemma enorm_cell_loop_fails:
  "\<exists>c\<in>set cs. \<not> (c < length (cell res) \<and> c < length (cell wc)) \<Longrightarrow>
   enorm_cell_loop h a r res wc cs e = Inl OutOfRange"
  by (induction cs arbitrary: e) (auto simp add: cell_at_def)

lemma enorm_cell_loop_face:
  "enorm_cell_loop h a r (v\<lparr>face := fs\<rparr>) wc cs e = enorm_cell_loop h a r v wc cs e"
  by (induction cs arbitrary: e) (simp_all add: cell_at_def)

lemma fold_max_Max: "fold max xs (e::real) = Max (insert e (set xs))"
  using Max.set_eq_fold [of e xs] by simp

lemma fold_max_ge: "(e::real) \<le> fold max xs e"
  by (simp add: fold_max_Max)

lemma Max_insert_Max:
  fixes T :: "real set"
  assumes "finite T" "T \<noteq> {}" "finite B"
  shows "Max (insert (Max T) B) = Max (T \<union> B)"
proof (cases "B = {}")
  case True
  then show ?thesis by simp
next
  case False
  then show ?thesis using assms by (simp add: Max_Un)
qed

lemma update_tolerances_frame:
  "S_next (update_tolerances pk) = S_next pk"
  "S_inter (update_tolerances pk) = S_inter pk"
  "pk_name (update_tolerances pk) = pk_name pk"
  by (simp_all add: update_tolerances_def)

lemma enorm_kernel_frame:
  "atol (enorm_kernel X pk) = atol (update_tolerances pk)"
  "rtol (enorm_kernel X pk) = rtol (update_tolerances pk)"
  by (simp_all add: enorm_kernel_def)

text \<open>When the water content covers the cells of \<open>du\<close>, the norm returns: the cell loop
  folds \<open>max\<close> over the cell terms from \<open>0\<close>, and the reduction folds \<open>max\<close> over
  the other ranks' values.\<close>

lemma enorm_returns:
  assumes "length (cell (data du)) \<le> length (enorm_wc X pk)"
  shows "enorm X peers pk u du =
     Inr (fold max (others X peers)
            (fold max (map (enorm_term X pk du) [0..<length (cell (data du))]) 0),
          enorm_kernel X pk)"
proof -
  let ?wc = "HasFieldChanged X ''water_content'' (pk_name pk) (S_next pk) ''water_content''"
  let ?n = "length (cell (data du))"
  have et: "enorm_term X pk du =
      (\<lambda>c. cell_error (time (S_next pk) - time (S_inter pk)) (atol (update_tolerances pk))
             (rtol (update_tolerances pk)) (cell (data du) ! c) (cell ?wc ! c))"
    by (rule ext) (simp add: enorm_term_def enorm_wc_def enorm_h_def enorm_kernel_frame)
  have loop: "enorm_cell_loop (time (S_next pk) - time (S_inter pk)) (atol (update_tolerances pk))
                (rtol (update_tolerances pk)) (data du) ?wc [0..<?n] 0 =
              Inr (fold max (map (enorm_term X pk du) [0..<?n]) 0)"
    using assms by (simp add: enorm_cell_loop_fold et enorm_wc_def)
  have nonneg: "0 \<le> fold max (map (enorm_term X pk du) [0..<?n]) 0"
    by (rule fold_max_ge)
  show ?thesis
    using nonneg
    by (simp add: enorm_def Let_def update_tolerances_frame loop others_def
        MPI_Allreduce_MAX_def enorm_kernel_def max_def)
qed

text \<open>Otherwise the loop reads past the end of the water content.\<close>

lemma enorm_out_of_range:
  assumes "\<not> length (cell (data du)) \<le> length (enorm_wc X pk)"
  shows "enorm X peers pk u du = Inl OutOfRange"
proof -
  let ?wc = "HasFieldChanged X ''water_content'' (pk_name pk) (S_next pk) ''water_content''"
  have "length (cell ?wc) \<in> set [0..<length (cell (data du))]"
    using assms by (simp add: enorm_wc_def)
  then have "\<exists>c\<in>set [0..<length (cell (data du))].
      \<not> (c < length (cell (data du)) \<and> c < length (cell ?wc))" by blast
  then have "enorm_cell_loop h a r (data du) ?wc [0..<length (cell (data du))] 0 = Inl OutOfRange"
    for h a r by (rule enorm_cell_loop_fails)
  then show ?thesis
    by (simp add: enorm_def Let_def update_tolerances_frame)
qed

subsection \<open>The one-cell configuration\<close>

lemma one_cell_wc:
  "enorm_wc spec_collaborators (one_cell_pk t0 t1 a r k w) = [w]"
  by (simp add: enorm_wc_def spec_collaborators_def one_cell_pk_def one_cell_state_def one_cell_def)

lemma one_cell_tols:
  "atol (enorm_kernel X (one_cell_pk t0 t1 a r False w)) = a"
  "rtol (enorm_kernel X (one_cell_pk t0 t1 a r False w)) = r"
  by (simp_all add: enorm_kernel_def update_tolerances_def one_cell_pk_def)

lemma one_cell_h: "enorm_h (one_cell_pk t0 t1 a r k w) = t1 - t0"
  by (simp add: enorm_h_def one_cell_pk_def one_cell_state_def)

subsection \<open>The norm is the maximum of the cell terms\<close>

text \<open>
  Claim C1. \<open>enorm\<close> returns the maximum over the cells \<open>c\<close> of
  \<open>|h * du c| / (atol + rtol * |wc c|)\<close>, where \<open>wc\<close> is the water content of the new state
  after its evaluator has run and \<open>h\<close> the difference of the two states' times; the
  other ranks enter through the values they bring to the reduction (none in a run on one
  process). The face values of \<open>du\<close>, and \<open>u\<close>, do not enter. For one cell with \<open>h = 1\<close>,
  \<open>atol = 1e-5\<close>, \<open>rtol = 1e-4\<close>, \<open>wc = 10\<close> and \<open>du = 1e-3\<close> the cell term is
  \<open>1e-3 / 1.01e-3\<close>, within \<open>1e-4\<close> of \<open>0.9901\<close>. The statement is for a mesh with at
  least one cell, a water content that covers the cells, and a positive scale
  \<open>atol + rtol * |wc c|\<close> in every cell.
\<close>

theorem enorm_max_over_cells:
  assumes cells: "0 < length (cell (data du))"
    and wc: "length (cell (data du)) \<le> length (enorm_wc X pk)"
    and scale: "\<forall>c<length (cell (data du)).
                  0 < atol (enorm_kernel X pk) + rtol (enorm_kernel X pk) * \<bar>enorm_wc X pk ! c\<bar>"
  shows "enorm X peers pk u du =
           Inr (Max (enorm_term X pk du ` {..<length (cell (data du))} \<union> set (others X peers)),
                enorm_kernel X pk)
       \<and> (\<forall>c. enorm_term X pk du c =
               \<bar>enorm_h pk * cell (data du) ! c\<bar>
                 / (atol (enorm_kernel X pk) + rtol (enorm_kernel X pk) * \<bar>enorm_wc X pk ! c\<bar>))
       \<and> (\<forall>u' fs. enorm X peers pk u' (du\<lparr>data := (data du)\<lparr>face := fs\<rparr>\<rparr>) = enorm X peers pk u du)
       \<and> cell_error 1 0.00001 0.0001 0.001 10 = 0.001 / 0.00101
       \<and> \<bar>cell_error 1 0.00001 0.0001 0.001 10 - 0.9901\<bar> < 0.0001"
proof -
  let ?n = "length (cell (data du))"
  let ?T = "enorm_term X pk du ` {..<?n}"
  have T: "set (map (enorm_term X pk du) [0..<?n]) = ?T"
    by (simp add: atLeast0LessThan)
  have fin: "finite ?T" and ne: "?T \<noteq> {}"
    using cells by auto
  have nonneg: "0 \<le> x" if "x \<in> ?T" for x
  proof -
    from that obtain c where c: "c < ?n" and x: "x = enorm_term X pk du c" by auto
    from scale c have "0 < atol (enorm_kernel X pk) + rtol (enorm_kernel X pk) * \<bar>enorm_wc X pk ! c\<bar>"
      by simp
    then show ?thesis
      by (simp add: x enorm_term_def cell_error_def)
  qed
  have "0 \<le> Max ?T"
    using fin ne nonneg by (meson Max_in)
  then have "Max (insert 0 ?T) = Max ?T"
    using fin ne by (simp add: max_def)
  then have loc: "fold max (map (enorm_term X pk du) [0..<?n]) 0 = Max ?T"
    unfolding fold_max_Max T by simp
  have "fold max (others X peers) (Max ?T) = Max (?T \<union> set (others X peers))"
    using fin ne by (simp add: fold_max_Max Max_insert_Max)
  with loc have res: "enorm X peers pk u du =
           Inr (Max (?T \<union> set (others X peers)), enorm_kernel X pk)"
    by (simp add: enorm_returns [OF wc])
  have faces: "enorm X peers pk u' (du\<lparr>data := (data du)\<lparr>face := fs\<rparr>\<rparr>) = enorm X peers pk u du"
    for u' fs
    by (simp add: enorm_def Let_def enorm_cell_loop_face)
  have num: "cell_error 1 0.00001 0.0001 0.001 10 = 0.001 / 0.00101"
    by (simp add: cell_error_def)
  have approx: "\<bar>cell_error 1 0.00001 0.0001 0.001 10 - 0.9901\<bar> < 0.0001"
    by (simp add: cell_error_def)
  show ?thesis
    using res faces num approx by (simp add: enorm_term_def cell_error_def)
qed

text \<open>The scenario of the claim as a run: one cell, one process, times \<open>0\<close> and \<open>1\<close>.
  The norm returns \<open>100 / 101\<close>.\<close>

theorem enorm_max_over_cells_witness:
  "0 < length (cell (data \<lparr>data = one_cell (1/1000)\<rparr>))
   \<and> length (cell (data \<lparr>data = one_cell (1/1000)\<rparr>))
        \<le> length (enorm_wc spec_collaborators (one_cell_pk 0 1 (1/100000) (1/10000) False 10))
   \<and> 0 < atol (enorm_kernel spec_collaborators (one_cell_pk 0 1 (1/100000) (1/10000) False 10))
          + rtol (enorm_kernel spec_collaborators (one_cell_pk 0 1 (1/100000) (1/10000) False 10))
            * \<bar>enorm_wc spec_collaborators (one_cell_pk 0 1 (1/100000) (1/10000) False 10) ! 0\<bar>
   \<and> enorm spec_collaborators [] (one_cell_pk 0 1 (1/100000) (1/10000) False 10)
         \<lparr>data = one_cell 3\<rparr> \<lparr>data = one_cell (1/1000)\<rparr>
       = Inr (100 / 101, enorm_kernel spec_collaborators (one_cell_pk 0 1 (1/100000) (1/10000) False 10))"
proof -
  let ?pk = "one_cell_pk 0 1 (1/100000) (1/10000) False 10"
  let ?du = "\<lparr>data = one_cell (1/1000)\<rparr>"
  have cells: "0 < length (cell (data ?du))"
    by (simp add: one_cell_def)
  have wc: "length (cell (data ?du)) \<le> length (enorm_wc spec_collaborators ?pk)"
    by (simp add: one_cell_def one_cell_wc)
  have scale: "\<forall>c<length (cell (data ?du)).
      0 < atol (enorm_kernel spec_collaborators ?pk)
          + rtol (enorm_kernel spec_collaborators ?pk) * \<bar>enorm_wc spec_collaborators ?pk ! c\<bar>"
    by (simp add: one_cell_def one_cell_wc one_cell_tols)
  have t: "enorm_term spec_collaborators ?pk ?du 0 = 100 / 101"
    by (simp add: enorm_term_def one_cell_wc one_cell_tols one_cell_h cell_error_def one_cell_def)
  have n: "{..<length (cell (data ?du))} = {0}"
    by (auto simp add: one_cell_def)
  have terms: "enorm_term spec_collaborators ?pk ?du ` {..<length (cell (data ?du))}
                 \<union> set (others spec_collaborators []) = {100 / 101}"
    unfolding n by (simp add: others_def t)
  have "enorm spec_collaborators [] ?pk \<lparr>data = one_cell 3\<rparr> ?du
       = Inr (100 / 101, enorm_kernel spec_collaborators ?pk)"
    using enorm_max_over_cells [OF cells wc scale, THEN conjunct1, of "[]" "\<lparr>data = one_cell 3\<rparr>"]
    unfolding terms by simp
  then show ?thesis
    using cells wc scale by simp
qed

subsection \<open>Sign, zero and monotonicity\<close>

lemma fold_max_mono:
  "length xs = length ys \<Longrightarrow> \<forall>i<length xs. xs ! i \<le> max e' (ys ! i) \<Longrightarrow> (e::real) \<le> e'
    \<Longrightarrow> fold max xs e \<le> fold max ys e'"
proof (induction xs ys arbitrary: e e' rule: list_induct2)
  case Nil
  then show ?case by simp
next
  case (Cons x xs y ys)
  have "fold max xs (max x e) \<le> fold max ys (max y e')"
  proof (rule Cons.IH)
    show "max x e \<le> max y e'" using Cons.prems by (auto simp: max_def split: if_splits)
    show "\<forall>i<length xs. xs ! i \<le> max (max y e') (ys ! i)"
      using Cons.prems(1) by (auto simp: less_Suc_eq_0_disj max_def split: if_splits) 
  qed
  then show ?case by simp
qed

lemma fold_max_zero: "\<forall>x\<in>set xs. x = 0 \<Longrightarrow> fold max xs (0::real) = 0"
  by (induction xs) simp_all

lemma cell_error_mono:
  assumes "\<bar>d\<bar> \<le> \<bar>d'\<bar>"
  shows "cell_error h a r d w \<le> max 0 (cell_error h a r d' w)"
proof (cases "0 < a + r * \<bar>w\<bar>")
  case True
  have "\<bar>h * d\<bar> \<le> \<bar>h * d'\<bar>"
    using assms by (simp add: abs_mult mult_left_mono)
  then have "cell_error h a r d w \<le> cell_error h a r d' w"
    using True by (simp add: cell_error_def divide_right_mono)
  then show ?thesis by simp
next
  case False
  then have "cell_error h a r d w \<le> 0"
    by (simp add: cell_error_def divide_nonneg_nonpos)
  then show ?thesis by simp
qed

text \<open>
  Claim C8. Whenever the water content covers the cells of \<open>du\<close>, \<open>enorm\<close> returns a
  value that is not negative; it returns \<open>0\<close> when every cell value of \<open>du\<close> is \<open>0\<close>
  (and the other ranks bring \<open>0\<close>, as they do for their part of a zero \<open>du\<close>); and
  when \<open>du'\<close> has cell values at least as large in absolute value as those of \<open>du\<close>,
  with the kernel and the other ranks' values fixed, the norm of \<open>du'\<close> is at least the
  norm of \<open>du\<close>. The scale \<open>atol + rtol * |wc c|\<close> is not zero in any cell; it need
  not be positive, since a cell with a negative scale adds nothing above the initial \<open>0\<close>.
\<close>

theorem enorm_nonneg_zero_monotone:
  assumes wc: "length (cell (data du)) \<le> length (enorm_wc X pk)"
    and nz: "\<forall>c<length (cell (data du)).
               atol (enorm_kernel X pk) + rtol (enorm_kernel X pk) * \<bar>enorm_wc X pk ! c\<bar> \<noteq> 0"
  shows "(\<exists>v. enorm X peers pk u du = Inr (v, enorm_kernel X pk) \<and> 0 \<le> v)
    \<and> ((\<forall>x\<in>set (cell (data du)). x = 0) \<and> (\<forall>p\<in>set (others X peers). p = 0)
          \<longrightarrow> enorm X peers pk u du = Inr (0, enorm_kernel X pk))
    \<and> (\<forall>du'. length (cell (data du')) = length (cell (data du))
             \<and> (\<forall>c<length (cell (data du)). \<bar>cell (data du) ! c\<bar> \<le> \<bar>cell (data du') ! c\<bar>)
          \<longrightarrow> (\<exists>v v'. enorm X peers pk u du = Inr (v, enorm_kernel X pk)
                     \<and> enorm X peers pk u du' = Inr (v', enorm_kernel X pk) \<and> v \<le> v'))"
proof -
  let ?n = "length (cell (data du))"
  let ?loc = "\<lambda>d. fold max (map (enorm_term X pk d) [0..<?n]) 0"
  let ?val = "\<lambda>d. fold max (others X peers) (?loc d)"
  have ret: "enorm X peers pk u du = Inr (?val du, enorm_kernel X pk)"
    by (rule enorm_returns [OF wc])
  have "0 \<le> ?loc du" by (rule fold_max_ge)
  also have "\<dots> \<le> ?val du" by (rule fold_max_ge)
  finally have nonneg: "\<exists>v. enorm X peers pk u du = Inr (v, enorm_kernel X pk) \<and> 0 \<le> v"
    using ret by simp
  have zero: "enorm X peers pk u du = Inr (0, enorm_kernel X pk)"
    if z: "\<forall>x\<in>set (cell (data du)). x = 0" and p: "\<forall>p\<in>set (others X peers). p = 0"
  proof -
    have "\<forall>x\<in>set (map (enorm_term X pk du) [0..<?n]). x = 0"
      using z by (simp add: enorm_term_def cell_error_def)
    then have "?loc du = 0" by (rule fold_max_zero)
    moreover have "fold max (others X peers) 0 = 0" using p by (rule fold_max_zero)
    ultimately show ?thesis using ret by simp
  qed
  have mono: "\<exists>v v'. enorm X peers pk u du = Inr (v, enorm_kernel X pk)
                     \<and> enorm X peers pk u du' = Inr (v', enorm_kernel X pk) \<and> v \<le> v'"
    if len: "length (cell (data du')) = ?n"
      and le: "\<forall>c<?n. \<bar>cell (data du) ! c\<bar> \<le> \<bar>cell (data du') ! c\<bar>" for du'
  proof -
    have ret': "enorm X peers pk u du' = Inr (?val du', enorm_kernel X pk)"
      using enorm_returns [of du' X pk peers u] wc len by simp
    have "?loc du \<le> ?loc du'"
    proof (rule fold_max_mono)
      show "length (map (enorm_term X pk du) [0..<?n]) = length (map (enorm_term X pk du') [0..<?n])"
        by simp
      show "\<forall>i<length (map (enorm_term X pk du) [0..<?n]).
              map (enorm_term X pk du) [0..<?n] ! i \<le> max 0 (map (enorm_term X pk du') [0..<?n] ! i)"
        using le by (simp add: enorm_term_def cell_error_mono)
      show "(0::real) \<le> 0" by simp
    qed
    then have "?val du \<le> ?val du'"
      using fold_max_mono [of "others X peers" "others X peers" "?loc du'" "?loc du"] by simp
    then show ?thesis using ret ret' by simp
  qed
  show ?thesis
    using nonneg zero mono by blast
qed

text \<open>At a zero \<open>du\<close> the norm is \<open>0\<close>; at \<open>du' = - 2\<close> it is at least that.\<close>

theorem enorm_nonneg_zero_monotone_witness:
  "length (cell (data \<lparr>data = one_cell 0\<rparr>))
      \<le> length (enorm_wc spec_collaborators (one_cell_pk 0 1 (1/100000) (1/10000) False 10))
   \<and> enorm spec_collaborators [] (one_cell_pk 0 1 (1/100000) (1/10000) False 10)
        \<lparr>data = one_cell 3\<rparr> \<lparr>data = one_cell 0\<rparr>
      = Inr (0, enorm_kernel spec_collaborators (one_cell_pk 0 1 (1/100000) (1/10000) False 10))
   \<and> (\<exists>v'. enorm spec_collaborators [] (one_cell_pk 0 1 (1/100000) (1/10000) False 10)
              \<lparr>data = one_cell 3\<rparr> \<lparr>data = one_cell (- 2)\<rparr>
            = Inr (v', enorm_kernel spec_collaborators (one_cell_pk 0 1 (1/100000) (1/10000) False 10))
          \<and> 0 \<le> v')"
proof -
  let ?pk = "one_cell_pk 0 1 (1/100000) (1/10000) False 10"
  let ?du = "\<lparr>data = one_cell 0\<rparr>"
  let ?du' = "\<lparr>data = one_cell (- 2)\<rparr>"
  let ?u = "\<lparr>data = one_cell 3\<rparr>"
  have wc: "length (cell (data ?du)) \<le> length (enorm_wc spec_collaborators ?pk)"
    by (simp add: one_cell_def one_cell_wc)
  have nz: "\<forall>c<length (cell (data ?du)).
      atol (enorm_kernel spec_collaborators ?pk)
        + rtol (enorm_kernel spec_collaborators ?pk) * \<bar>enorm_wc spec_collaborators ?pk ! c\<bar> \<noteq> 0"
    by (simp add: one_cell_def one_cell_wc one_cell_tols)
  note main = enorm_nonneg_zero_monotone [OF wc nz, of "[]" ?u]
  have zero: "enorm spec_collaborators [] ?pk ?u ?du = Inr (0, enorm_kernel spec_collaborators ?pk)"
    using main by (simp add: one_cell_def others_def)
  have "length (cell (data ?du')) = length (cell (data ?du))
        \<and> (\<forall>c<length (cell (data ?du)). \<bar>cell (data ?du) ! c\<bar> \<le> \<bar>cell (data ?du') ! c\<bar>)"
    by (simp add: one_cell_def)
  with main obtain v v' where
    "enorm spec_collaborators [] ?pk ?u ?du = Inr (v, enorm_kernel spec_collaborators ?pk)"
    "enorm spec_collaborators [] ?pk ?u ?du' = Inr (v', enorm_kernel spec_collaborators ?pk)"
    "v \<le> v'"
    by blast
  with zero have "enorm spec_collaborators [] ?pk ?u ?du' = Inr (v', enorm_kernel spec_collaborators ?pk)
       \<and> 0 \<le> v'"
    by simp
  then show ?thesis using wc zero by blast
qed

subsection \<open>A step of size zero\<close>

text \<open>
  Claim C10. The step size is not an argument of \<open>enorm\<close>: the cell terms are built
  with the time of the next state minus the time of the intermediate state. When the two
  times are equal, every cell term is \<open>0\<close> and the norm of every \<open>du\<close> is \<open>0\<close> (on one
  process, or when the other ranks, which see the same times, bring \<open>0\<close>), which is
  below the \<open>1\<close> the controller accepts. The water content covers the cells and the
  scale is not zero in any cell.
\<close>

theorem enorm_zero_step:
  assumes wc: "length (cell (data du)) \<le> length (enorm_wc X pk)"
    and nz: "\<forall>c<length (cell (data du)).
               atol (enorm_kernel X pk) + rtol (enorm_kernel X pk) * \<bar>enorm_wc X pk ! c\<bar> \<noteq> 0"
  shows "enorm X peers pk u du =
           Inr (fold max (others X peers)
                  (fold max
                     (map (\<lambda>c. \<bar>(time (S_next pk) - time (S_inter pk)) * cell (data du) ! c\<bar>
                                 / (atol (enorm_kernel X pk)
                                      + rtol (enorm_kernel X pk) * \<bar>enorm_wc X pk ! c\<bar>))
                        [0..<length (cell (data du))]) 0),
                enorm_kernel X pk)
    \<and> (time (S_next pk) = time (S_inter pk) \<longrightarrow>
          (\<forall>c. enorm_term X pk du c = 0)
        \<and> enorm X peers pk u du = Inr (fold max (others X peers) 0, enorm_kernel X pk)
        \<and> ((\<forall>p\<in>set (others X peers). p = 0)
              \<longrightarrow> enorm X peers pk u du = Inr (0, enorm_kernel X pk))
        \<and> enorm X [] pk u du = Inr (0, enorm_kernel X pk))"
proof (intro conjI impI)
  have et: "enorm_term X pk du =
      (\<lambda>c. \<bar>(time (S_next pk) - time (S_inter pk)) * cell (data du) ! c\<bar>
              / (atol (enorm_kernel X pk) + rtol (enorm_kernel X pk) * \<bar>enorm_wc X pk ! c\<bar>))"
    by (rule ext) (simp add: enorm_term_def cell_error_def enorm_h_def)
  show "enorm X peers pk u du =
           Inr (fold max (others X peers)
                  (fold max
                     (map (\<lambda>c. \<bar>(time (S_next pk) - time (S_inter pk)) * cell (data du) ! c\<bar>
                                 / (atol (enorm_kernel X pk)
                                      + rtol (enorm_kernel X pk) * \<bar>enorm_wc X pk ! c\<bar>))
                        [0..<length (cell (data du))]) 0),
                enorm_kernel X pk)"
    using enorm_returns [OF wc, of peers u] by (simp only: et)
next
  assume same: "time (S_next pk) = time (S_inter pk)"
  have terms: "enorm_term X pk du c = 0" for c
    using same by (simp add: enorm_term_def cell_error_def enorm_h_def)
  have "fold max (map (enorm_term X pk du) [0..<length (cell (data du))]) 0 = 0"
    by (rule fold_max_zero) (simp add: terms)
  then have ret: "enorm X ps pk u du = Inr (fold max (others X ps) 0, enorm_kernel X pk)" for ps
    using enorm_returns [OF wc, of ps u] by simp
  show "\<forall>c. enorm_term X pk du c = 0"
    by (simp add: terms)
  show "enorm X peers pk u du = Inr (fold max (others X peers) 0, enorm_kernel X pk)"
    by (rule ret)
  show "enorm X peers pk u du = Inr (0, enorm_kernel X pk)"
    if "\<forall>p\<in>set (others X peers). p = 0"
    using ret [of peers] fold_max_zero [OF that] by simp
  show "enorm X [] pk u du = Inr (0, enorm_kernel X pk)"
    using ret [of "[]"] by (simp add: others_def)
qed

text \<open>Both states at time \<open>5\<close>, \<open>du\<close> a million: the norm is \<open>0\<close>.\<close>

theorem enorm_zero_step_witness:
  "length (cell (data \<lparr>data = one_cell 1000000\<rparr>))
      \<le> length (enorm_wc spec_collaborators (one_cell_pk 5 5 (1/100000) (1/10000) False 10))
   \<and> atol (enorm_kernel spec_collaborators (one_cell_pk 5 5 (1/100000) (1/10000) False 10))
        + rtol (enorm_kernel spec_collaborators (one_cell_pk 5 5 (1/100000) (1/10000) False 10))
          * \<bar>enorm_wc spec_collaborators (one_cell_pk 5 5 (1/100000) (1/10000) False 10) ! 0\<bar> \<noteq> 0
   \<and> time (S_next (one_cell_pk 5 5 (1/100000) (1/10000) False 10))
       = time (S_inter (one_cell_pk 5 5 (1/100000) (1/10000) False 10))
   \<and> enorm spec_collaborators [] (one_cell_pk 5 5 (1/100000) (1/10000) False 10)
        \<lparr>data = one_cell 3\<rparr> \<lparr>data = one_cell 1000000\<rparr>
      = Inr (0, enorm_kernel spec_collaborators (one_cell_pk 5 5 (1/100000) (1/10000) False 10))"
proof -
  let ?pk = "one_cell_pk 5 5 (1/100000) (1/10000) False 10"
  let ?du = "\<lparr>data = one_cell 1000000\<rparr>"
  have wc: "length (cell (data ?du)) \<le> length (enorm_wc spec_collaborators ?pk)"
    by (simp add: one_cell_def one_cell_wc)
  have nz: "\<forall>c<length (cell (data ?du)).
      atol (enorm_kernel spec_collaborators ?pk)
        + rtol (enorm_kernel spec_collaborators ?pk) * \<bar>enorm_wc spec_collaborators ?pk ! c\<bar> \<noteq> 0"
    by (simp add: one_cell_def one_cell_wc one_cell_tols)
  have nz0: "atol (enorm_kernel spec_collaborators ?pk)
        + rtol (enorm_kernel spec_collaborators ?pk) * \<bar>enorm_wc spec_collaborators ?pk ! 0\<bar> \<noteq> 0"
    by (simp add: one_cell_wc one_cell_tols)
  have same: "time (S_next ?pk) = time (S_inter ?pk)"
    by (simp add: one_cell_pk_def one_cell_state_def)
  have "enorm spec_collaborators [] ?pk \<lparr>data = one_cell 3\<rparr> ?du
      = Inr (0, enorm_kernel spec_collaborators ?pk)"
    using enorm_zero_step [OF wc nz, of "[]" "\<lparr>data = one_cell 3\<rparr>"] same by blast
  then show ?thesis
    using wc nz0 same by blast
qed

subsection \<open>The continuation tolerances\<close>

text \<open>
  Claim C3, as amended. With \<^verbatim>\<open>continuation_to_ss_\<close> set, every call of \<open>enorm\<close>
  leaves the tolerances \<open>atol = atol0 + 1e5 * atol0 / (1 + t)\<close> and
  \<open>rtol = rtol0 + 1e5 * rtol0 / (1 + t)\<close>, with \<open>t\<close> the time of the next state: the
  term added is \<open>1e5\<close> times the nominal tolerance over \<open>1 + t\<close>, not a constant \<open>K\<close>
  over \<open>1 + t\<close>. The nominal tolerances stay.
\<close>

theorem enorm_continuation_tolerances:
  assumes mode: "continuation_to_ss pk"
    and wc: "length (cell (data du)) \<le> length (enorm_wc X pk)"
    and t: "1 + time (S_next pk) \<noteq> 0"
  shows "\<exists>v pk'. enorm X peers pk u du = Inr (v, pk')
           \<and> atol pk' = atol0 pk + 100000 * atol0 pk / (1 + time (S_next pk))
           \<and> rtol pk' = rtol0 pk + 100000 * rtol0 pk / (1 + time (S_next pk))
           \<and> atol pk' = atol0 pk * (1 + 100000 / (1 + time (S_next pk)))
           \<and> rtol pk' = rtol0 pk * (1 + 100000 / (1 + time (S_next pk)))
           \<and> atol0 pk' = atol0 pk \<and> rtol0 pk' = rtol0 pk"
proof -
  have a: "atol (enorm_kernel X pk) = atol0 pk + 100000 * atol0 pk / (1 + time (S_next pk))"
    and r: "rtol (enorm_kernel X pk) = rtol0 pk + 100000 * rtol0 pk / (1 + time (S_next pk))"
    and a0: "atol0 (enorm_kernel X pk) = atol0 pk" and r0: "rtol0 (enorm_kernel X pk) = rtol0 pk"
    using mode by (simp_all add: enorm_kernel_def update_tolerances_def)
  have a': "atol (enorm_kernel X pk) = atol0 pk * (1 + 100000 / (1 + time (S_next pk)))"
    unfolding a by (simp add: algebra_simps)
  have r': "rtol (enorm_kernel X pk) = rtol0 pk * (1 + 100000 / (1 + time (S_next pk)))"
    unfolding r by (simp add: algebra_simps)
  show ?thesis
    using enorm_returns [OF wc, of peers u] a r a' r' a0 r0 by blast
qed

text \<open>Nominal tolerances \<open>1e-5\<close> and \<open>1e-4\<close> at time \<open>9\<close> become \<open>0.10001\<close> and
  \<open>1.0001\<close>.\<close>

theorem enorm_continuation_tolerances_witness:
  "continuation_to_ss (one_cell_pk 0 9 (1/100000) (1/10000) True 10)
   \<and> length (cell (data \<lparr>data = one_cell (1/1000)\<rparr>))
        \<le> length (enorm_wc spec_collaborators (one_cell_pk 0 9 (1/100000) (1/10000) True 10))
   \<and> 1 + time (S_next (one_cell_pk 0 9 (1/100000) (1/10000) True 10)) \<noteq> 0
   \<and> (\<exists>v pk'. enorm spec_collaborators [] (one_cell_pk 0 9 (1/100000) (1/10000) True 10)
                  \<lparr>data = one_cell 3\<rparr> \<lparr>data = one_cell (1/1000)\<rparr> = Inr (v, pk')
             \<and> atol pk' = 10001 / 100000 \<and> rtol pk' = 10001 / 10000)"
proof -
  let ?pk = "one_cell_pk 0 9 (1/100000) (1/10000) True 10"
  let ?du = "\<lparr>data = one_cell (1/1000)\<rparr>"
  have mode: "continuation_to_ss ?pk"
    by (simp add: one_cell_pk_def)
  have wc: "length (cell (data ?du)) \<le> length (enorm_wc spec_collaborators ?pk)"
    by (simp add: one_cell_def one_cell_wc)
  have t: "1 + time (S_next ?pk) \<noteq> 0"
    by (simp add: one_cell_pk_def one_cell_state_def)
  have vals: "atol0 ?pk = 1/100000" "rtol0 ?pk = 1/10000" "time (S_next ?pk) = 9"
    by (simp_all add: one_cell_pk_def one_cell_state_def)
  obtain v pk' where
    "enorm spec_collaborators [] ?pk \<lparr>data = one_cell 3\<rparr> ?du = Inr (v, pk')"
    "atol pk' = atol0 ?pk + 100000 * atol0 ?pk / (1 + time (S_next ?pk))"
    "rtol pk' = rtol0 ?pk + 100000 * rtol0 ?pk / (1 + time (S_next ?pk))"
    using enorm_continuation_tolerances [OF mode wc t, of "[]" "\<lparr>data = one_cell 3\<rparr>"] by blast
  then have "enorm spec_collaborators [] ?pk \<lparr>data = one_cell 3\<rparr> ?du = Inr (v, pk')
             \<and> atol pk' = 10001 / 100000 \<and> rtol pk' = 10001 / 10000"
    by (simp add: vals)
  then show ?thesis using mode wc t by blast
qed

text \<open>A run of the norm on the one-cell configuration, on one process.\<close>

lemma one_cell_run:
  "enorm spec_collaborators [] (one_cell_pk t0 t1 a r k w) u \<lparr>data = one_cell d\<rparr> =
     Inr (max 0 (cell_error (t1 - t0) (atol (update_tolerances (one_cell_pk t0 t1 a r k w)))
            (rtol (update_tolerances (one_cell_pk t0 t1 a r k w))) d w),
          enorm_kernel spec_collaborators (one_cell_pk t0 t1 a r k w))"
proof -
  have wc: "length (cell (data \<lparr>data = one_cell d\<rparr>))
              \<le> length (enorm_wc spec_collaborators (one_cell_pk t0 t1 a r k w))"
    by (simp add: one_cell_def one_cell_wc)
  show ?thesis
    unfolding enorm_returns [OF wc]
    by (simp add: one_cell_def others_def enorm_term_def one_cell_wc one_cell_h enorm_kernel_frame
        max.commute)
qed

lemma one_cell_continuation:
  "atol (enorm_kernel X (one_cell_pk t0 t1 a r True w)) = a + 100000 * a / (1 + t1)"
  "rtol (enorm_kernel X (one_cell_pk t0 t1 a r True w)) = r + 100000 * r / (1 + t1)"
  "atol0 (enorm_kernel X (one_cell_pk t0 t1 a r True w)) = a"
  "rtol0 (enorm_kernel X (one_cell_pk t0 t1 a r True w)) = r"
  by (simp_all add: enorm_kernel_def update_tolerances_def one_cell_pk_def one_cell_state_def)

text \<open>Against claim C3 as stated (\<open>atol = atol0 + K / (1 + t)\<close> with \<open>K = 1e5\<close>): at
  \<open>atol0 = 1e-5\<close>, \<open>rtol0 = 1e-4\<close> and \<open>t = 9\<close> the call leaves \<open>atol = 0.10001\<close> and
  \<open>rtol = 1.0001\<close>, where the claimed formula gives \<open>10000.00001\<close> and
  \<open>10000.0001\<close>.\<close>

theorem enorm_continuation_fixed_K_counterexample:
  "(case enorm spec_collaborators [] (one_cell_pk 0 9 (1/100000) (1/10000) True 10)
           \<lparr>data = one_cell 3\<rparr> \<lparr>data = one_cell (1/1000)\<rparr> of
      Inl x \<Rightarrow> False
    | Inr (v, pk') \<Rightarrow>
        atol pk' = 10001 / 100000 \<and> atol pk' \<noteq> atol0 pk' + 100000 / (1 + 9)
        \<and> rtol pk' = 10001 / 10000 \<and> rtol pk' \<noteq> rtol0 pk' + 100000 / (1 + 9))"
  by (simp add: one_cell_run one_cell_continuation)

text \<open>
  Claim C4, as amended. With \<^verbatim>\<open>continuation_to_ss_\<close> set, \<open>atol0 = 1e-5\<close> and the next
  state at time \<open>9\<close>, a call of \<open>enorm\<close> leaves \<open>atol = 1e-5 + 1e5 * 1e-5 / 10\<close>, which
  is \<open>0.10001\<close>.
\<close>

theorem enorm_continuation_scenario:
  assumes mode: "continuation_to_ss pk"
    and wc: "length (cell (data du)) \<le> length (enorm_wc X pk)"
    and a0: "atol0 pk = 0.00001"
    and t: "time (S_next pk) = 9"
  shows "\<exists>v pk'. enorm X peers pk u du = Inr (v, pk')
           \<and> atol pk' = 0.00001 + 100000 * 0.00001 / 10
           \<and> atol pk' = 0.10001"
proof -
  have "atol (enorm_kernel X pk) = atol0 pk + 100000 * atol0 pk / (1 + time (S_next pk))"
    using mode by (simp add: enorm_kernel_def update_tolerances_def)
  then have "atol (enorm_kernel X pk) = 0.00001 + 100000 * 0.00001 / 10
           \<and> atol (enorm_kernel X pk) = 0.10001"
    by (simp add: a0 t)
  then show ?thesis
    using enorm_returns [OF wc, of peers u] by blast
qed

text \<open>The scenario with the states at times \<open>8\<close> and \<open>9\<close>.\<close>

theorem enorm_continuation_scenario_witness:
  "continuation_to_ss (one_cell_pk 8 9 (1/100000) (1/1000) True 5)
   \<and> length (cell (data \<lparr>data = one_cell 2\<rparr>))
        \<le> length (enorm_wc spec_collaborators (one_cell_pk 8 9 (1/100000) (1/1000) True 5))
   \<and> atol0 (one_cell_pk 8 9 (1/100000) (1/1000) True 5) = 1/100000
   \<and> time (S_next (one_cell_pk 8 9 (1/100000) (1/1000) True 5)) = 9
   \<and> (\<exists>v pk'. enorm spec_collaborators [] (one_cell_pk 8 9 (1/100000) (1/1000) True 5)
                  \<lparr>data = one_cell 3\<rparr> \<lparr>data = one_cell 2\<rparr> = Inr (v, pk')
             \<and> atol pk' = 10001 / 100000)"
proof -
  let ?pk = "one_cell_pk 8 9 (1/100000) (1/1000) True 5"
  let ?du = "\<lparr>data = one_cell 2\<rparr>"
  have mode: "continuation_to_ss ?pk"
    by (simp add: one_cell_pk_def)
  have wc: "length (cell (data ?du)) \<le> length (enorm_wc spec_collaborators ?pk)"
    by (simp add: one_cell_def one_cell_wc)
  have a0: "atol0 ?pk = 0.00001" and t: "time (S_next ?pk) = 9"
    by (simp_all add: one_cell_pk_def one_cell_state_def)
  obtain v pk' where
    "enorm spec_collaborators [] ?pk \<lparr>data = one_cell 3\<rparr> ?du = Inr (v, pk')"
    "atol pk' = 0.10001"
    using enorm_continuation_scenario [OF mode wc a0 t, of "[]" "\<lparr>data = one_cell 3\<rparr>"] by blast
  then have "\<exists>v pk'. enorm spec_collaborators [] ?pk \<lparr>data = one_cell 3\<rparr> ?du = Inr (v, pk')
             \<and> atol pk' = 10001 / 100000"
    by simp
  then show ?thesis using mode wc a0 t by simp
qed

text \<open>Against claim C4 as stated: the tolerance of the scenario is \<open>0.10001\<close>, more
  than \<open>99\<close> away from \<open>100.00001\<close>.\<close>

theorem enorm_continuation_scenario_counterexample:
  "(case enorm spec_collaborators [] (one_cell_pk 8 9 (1/100000) (1/1000) True 5)
           \<lparr>data = one_cell 3\<rparr> \<lparr>data = one_cell 2\<rparr> of
      Inl x \<Rightarrow> False
    | Inr (v, pk') \<Rightarrow>
        atol pk' = 1/100000 + 100000 * (1/100000) / 10
        \<and> atol pk' = 10001 / 100000
        \<and> 99 < \<bar>atol pk' - 10000001 / 100000\<bar>)"
  by (simp add: one_cell_run one_cell_continuation)

section \<open>Properties of the residual\<close>

text \<open>With matching time stamps the call returns the residual built from zero; with a
  mismatch it ends at the assertion.\<close>

lemma Richards_fun_stamps:
  assumes "time (S_inter pk) = t_old" "time (S_next pk) = t_new"
  shows "Richards_fun X t_old t_new u_old u_new g pk =
     (let pk4 = fun_update_state X t_new u_new (pk\<lparr>niter := niter pk + 1\<rparr>);
          D = ApplyDiffusion X pk4 (PutScalar 0 (data g));
          A = AddAccumulation X (fst D) (snd D)
      in Inr (g\<lparr>data := snd A\<rparr>, fst A))"
  using assms by (simp add: Richards_fun_def ASSERT_def Let_def split: prod.splits)

lemma Richards_fun_mismatch:
  assumes "time (S_inter pk) \<noteq> t_old \<or> time (S_next pk) \<noteq> t_new"
  shows "Richards_fun X t_old t_new u_old u_new g pk = Inl AssertionFailed"
  using assms by (auto simp add: Richards_fun_def ASSERT_def Let_def)

text \<open>
  Claim C6, as amended. \<open>Richards_fun\<close> ends with a failed assertion exactly when the
  time of the intermediate state differs from \<open>t_old\<close> or the time of the next state
  differs from \<open>t_new\<close>. The sign of \<open>h = t_new - t_old\<close> is not checked: with matching
  time stamps the call returns, also when \<open>h \<le> 0\<close>.
\<close>

theorem Richards_fun_assertions:
  "(time (S_inter pk) \<noteq> t_old \<or> time (S_next pk) \<noteq> t_new
      \<longrightarrow> Richards_fun X t_old t_new u_old u_new g pk = Inl AssertionFailed)
   \<and> (time (S_inter pk) = t_old \<and> time (S_next pk) = t_new
      \<longrightarrow> (\<exists>r. Richards_fun X t_old t_new u_old u_new g pk = Inr r))
   \<and> (time (S_inter pk) = t_old \<and> time (S_next pk) = t_new \<and> t_new - t_old \<le> 0
      \<longrightarrow> Richards_fun X t_old t_new u_old u_new g pk \<noteq> Inl AssertionFailed)"
proof -
  have "\<exists>r. Richards_fun X t_old t_new u_old u_new g pk = Inr r"
    if "time (S_inter pk) = t_old" "time (S_next pk) = t_new"
    using Richards_fun_stamps [OF that] by (simp add: Let_def)
  then show ?thesis
    using Richards_fun_mismatch [of pk t_old t_new X u_old u_new g] by auto
qed

subsection \<open>The residual on the one-cell configuration\<close>

lemma one_cell_stamps:
  "time (S_inter (one_cell_pk t0 t1 a r k w)) = t0" "time (S_next (one_cell_pk t0 t1 a r k w)) = t1"
  by (simp_all add: one_cell_pk_def one_cell_state_def)

lemma spec_fun_update_state:
  "fun_update_state spec_collaborators t u pk = pk\<lparr>S_next := spec_solution_to_state u (S_next pk)\<rparr>"
  by (simp add: fun_update_state_def spec_collaborators_def Let_def)

lemma spec_ApplyDiffusion: "ApplyDiffusion spec_collaborators pk res = (pk, res)"
  by (simp add: spec_collaborators_def)

lemma spec_AddAccumulation_one_cell:
  assumes "cell (field_data (S_next pk) ''water_content'') = [w1]"
    and "cell (field_data (S_inter pk) ''water_content'') = [w0]"
  shows "AddAccumulation spec_collaborators pk \<lparr>cell = [x], face = []\<rparr> =
     (pk, \<lparr>cell = [x + (w1 - w0) / (time (S_next pk) - time (S_inter pk))], face = []\<rparr>)"
  using assms by (simp add: spec_collaborators_def spec_AddAccumulation_def Let_def)

lemma one_cell_fun:
  "Richards_fun spec_collaborators t0 t1 u_old u_new \<lparr>data = one_cell x\<rparr> (one_cell_pk t0 t1 a r k w) =
     Inr (\<lparr>data = one_cell ((w - 4) / (t1 - t0))\<rparr>,
          (one_cell_pk t0 t1 a r k w)
            \<lparr>niter := 1, S_next := spec_solution_to_state u_new (one_cell_state t1 3 w 1)\<rparr>)"
proof -
  let ?pk = "one_cell_pk t0 t1 a r k w"
  let ?pk4 = "?pk\<lparr>niter := 1, S_next := spec_solution_to_state u_new (one_cell_state t1 3 w 1)\<rparr>"
  have pk4: "fun_update_state spec_collaborators t1 u_new (?pk\<lparr>niter := niter ?pk + 1\<rparr>) = ?pk4"
    by (simp add: spec_fun_update_state) (simp add: one_cell_pk_def)
  have z: "PutScalar 0 (data \<lparr>data = one_cell x\<rparr>) = \<lparr>cell = [0], face = []\<rparr>"
    by (simp add: PutScalar_def one_cell_def)
  have w1: "cell (field_data (S_next ?pk4) ''water_content'') = [w]"
    by (simp add: spec_solution_to_state_def one_cell_state_def one_cell_def)
  have w0: "cell (field_data (S_inter ?pk4) ''water_content'') = [4]"
    by (simp add: one_cell_pk_def one_cell_state_def one_cell_def)
  have tm: "time (S_next ?pk4) = t1" "time (S_inter ?pk4) = t0"
    by (simp_all add: spec_solution_to_state_def one_cell_state_def one_cell_pk_def)
  have acc: "AddAccumulation spec_collaborators ?pk4 \<lparr>cell = [0], face = []\<rparr> =
     (?pk4, \<lparr>cell = [(w - 4) / (t1 - t0)], face = []\<rparr>)"
    using spec_AddAccumulation_one_cell [OF w1 w0, of 0] by (simp only: tm) simp
  show ?thesis
    unfolding Richards_fun_stamps [OF one_cell_stamps] Let_def pk4 z spec_ApplyDiffusion fst_conv snd_conv acc
    by (simp add: one_cell_def)
qed

text \<open>A kernel between the times \<open>0\<close> and \<open>1\<close>: the call with \<open>t_new = 2\<close> fails, the
  call with \<open>t_new = 1\<close> returns.\<close>

theorem Richards_fun_assertions_witness:
  "time (S_next (one_cell_pk 0 1 (1/100000) (1/10000) False 10)) \<noteq> 2
   \<and> Richards_fun spec_collaborators 0 2 \<lparr>data = one_cell 2\<rparr> \<lparr>data = one_cell 3\<rparr>
        \<lparr>data = one_cell 7\<rparr> (one_cell_pk 0 1 (1/100000) (1/10000) False 10) = Inl AssertionFailed
   \<and> time (S_inter (one_cell_pk 0 1 (1/100000) (1/10000) False 10)) = 0
   \<and> time (S_next (one_cell_pk 0 1 (1/100000) (1/10000) False 10)) = 1
   \<and> (\<exists>r. Richards_fun spec_collaborators 0 1 \<lparr>data = one_cell 2\<rparr> \<lparr>data = one_cell 3\<rparr>
        \<lparr>data = one_cell 7\<rparr> (one_cell_pk 0 1 (1/100000) (1/10000) False 10) = Inr r)"
proof -
  let ?pk = "one_cell_pk 0 1 (1/100000) (1/10000) False 10"
  have s: "time (S_inter ?pk) = 0" "time (S_next ?pk) = 1"
    by (simp_all add: one_cell_pk_def one_cell_state_def)
  have ne: "time (S_next ?pk) \<noteq> 2"
    by (simp add: s)
  then have bad: "time (S_inter ?pk) \<noteq> 0 \<or> time (S_next ?pk) \<noteq> 2"
    by simp
  show ?thesis
    using Richards_fun_assertions [of ?pk 0 2 spec_collaborators "\<lparr>data = one_cell 2\<rparr>"
        "\<lparr>data = one_cell 3\<rparr>" "\<lparr>data = one_cell 7\<rparr>"]
      Richards_fun_assertions [of ?pk 0 1 spec_collaborators "\<lparr>data = one_cell 2\<rparr>"
        "\<lparr>data = one_cell 3\<rparr>" "\<lparr>data = one_cell 7\<rparr>"]
      s ne bad by blast
qed

text \<open>Against claim C6 as stated: with \<open>t_old = 1\<close> and \<open>t_new = 0\<close>, the time stamps
  matching, the step is \<open>- 1\<close> and the call returns the residual \<open>(10 - 4) / (- 1)\<close>.\<close>

theorem Richards_fun_negative_step_counterexample:
  "time (S_inter (one_cell_pk 1 0 (1/100000) (1/10000) False 10)) = 1
   \<and> time (S_next (one_cell_pk 1 0 (1/100000) (1/10000) False 10)) = 0
   \<and> \<not> 0 < (0::real) - 1
   \<and> Richards_fun spec_collaborators 1 0 \<lparr>data = one_cell 2\<rparr> \<lparr>data = one_cell 3\<rparr>
        \<lparr>data = one_cell 7\<rparr> (one_cell_pk 1 0 (1/100000) (1/10000) False 10)
      = Inr (\<lparr>data = one_cell (- 6)\<rparr>,
             (one_cell_pk 1 0 (1/100000) (1/10000) False 10)
               \<lparr>niter := 1,
                S_next := spec_solution_to_state \<lparr>data = one_cell 3\<rparr> (one_cell_state 0 3 10 1)\<rparr>)"
  by (simp add: one_cell_fun) (simp add: one_cell_pk_def one_cell_state_def)

text \<open>
  Claim C7. In a call with matching time stamps the residual is zeroed, then handed to
  \<open>ApplyDiffusion\<close>, and what that returns is handed to \<open>AddAccumulation\<close>; the vector
  returned is the result of the last. The values \<open>g\<close> held on entry do not matter: two
  vectors with the same numbers of cells and faces give the same result.
\<close>

theorem Richards_fun_residual:
  assumes stamps: "time (S_inter pk) = t_old" "time (S_next pk) = t_new"
  shows "Richards_fun X t_old t_new u_old u_new g pk =
           (let pk4 = fun_update_state X t_new u_new (pk\<lparr>niter := niter pk + 1\<rparr>);
                D = ApplyDiffusion X pk4 (PutScalar 0 (data g));
                A = AddAccumulation X (fst D) (snd D)
            in Inr (g\<lparr>data := snd A\<rparr>, fst A))
       \<and> cell (PutScalar 0 (data g)) = replicate (length (cell (data g))) 0
       \<and> face (PutScalar 0 (data g)) = replicate (length (face (data g))) 0
       \<and> (\<forall>g'. length (cell (data g')) = length (cell (data g))
                \<and> length (face (data g')) = length (face (data g))
             \<longrightarrow> Richards_fun X t_old t_new u_old u_new g' pk
                 = Richards_fun X t_old t_new u_old u_new g pk)"
proof (intro conjI allI impI)
  show "Richards_fun X t_old t_new u_old u_new g pk =
           (let pk4 = fun_update_state X t_new u_new (pk\<lparr>niter := niter pk + 1\<rparr>);
                D = ApplyDiffusion X pk4 (PutScalar 0 (data g));
                A = AddAccumulation X (fst D) (snd D)
            in Inr (g\<lparr>data := snd A\<rparr>, fst A))"
    by (rule Richards_fun_stamps [OF stamps])
  show "cell (PutScalar 0 (data g)) = replicate (length (cell (data g))) 0"
    by (simp add: PutScalar_def map_replicate_const)
  show "face (PutScalar 0 (data g)) = replicate (length (face (data g))) 0"
    by (simp add: PutScalar_def map_replicate_const)
next
  fix g' :: TreeVector
  assume shape: "length (cell (data g')) = length (cell (data g))
                \<and> length (face (data g')) = length (face (data g))"
  then have z: "PutScalar 0 (data g') = PutScalar 0 (data g)"
    by (simp add: PutScalar_def map_replicate_const)
  show "Richards_fun X t_old t_new u_old u_new g' pk = Richards_fun X t_old t_new u_old u_new g pk"
    unfolding Richards_fun_stamps [OF stamps] z by (simp add: Let_def)
qed

text \<open>Between the times \<open>0\<close> and \<open>2\<close> the water content goes from \<open>4\<close> to \<open>10\<close>: the
  residual is \<open>3\<close>, whether \<open>g\<close> held \<open>7\<close> or \<open>- 5\<close>.\<close>

theorem Richards_fun_residual_witness:
  "time (S_inter (one_cell_pk 0 2 (1/100000) (1/10000) False 10)) = 0
   \<and> time (S_next (one_cell_pk 0 2 (1/100000) (1/10000) False 10)) = 2
   \<and> map_sum id fst (Richards_fun spec_collaborators 0 2 \<lparr>data = one_cell 2\<rparr> \<lparr>data = one_cell 3\<rparr>
        \<lparr>data = one_cell 7\<rparr> (one_cell_pk 0 2 (1/100000) (1/10000) False 10))
      = Inr \<lparr>data = one_cell 3\<rparr>
   \<and> Richards_fun spec_collaborators 0 2 \<lparr>data = one_cell 2\<rparr> \<lparr>data = one_cell 3\<rparr>
        \<lparr>data = one_cell (- 5)\<rparr> (one_cell_pk 0 2 (1/100000) (1/10000) False 10)
      = Richards_fun spec_collaborators 0 2 \<lparr>data = one_cell 2\<rparr> \<lparr>data = one_cell 3\<rparr>
        \<lparr>data = one_cell 7\<rparr> (one_cell_pk 0 2 (1/100000) (1/10000) False 10)"
proof -
  let ?pk = "one_cell_pk 0 2 (1/100000) (1/10000) False 10"
  have s: "time (S_inter ?pk) = 0" "time (S_next ?pk) = 2"
    by (simp_all add: one_cell_pk_def one_cell_state_def)
  have shape: "length (cell (data \<lparr>data = one_cell (- 5)\<rparr>)) = length (cell (data \<lparr>data = one_cell 7\<rparr>))
     \<and> length (face (data \<lparr>data = one_cell (- 5)\<rparr>)) = length (face (data \<lparr>data = one_cell 7\<rparr>))"
    by (simp add: one_cell_def)
  have "Richards_fun spec_collaborators 0 2 \<lparr>data = one_cell 2\<rparr> \<lparr>data = one_cell 3\<rparr>
        \<lparr>data = one_cell (- 5)\<rparr> ?pk
      = Richards_fun spec_collaborators 0 2 \<lparr>data = one_cell 2\<rparr> \<lparr>data = one_cell 3\<rparr>
        \<lparr>data = one_cell 7\<rparr> ?pk"
    using Richards_fun_residual [OF s, of spec_collaborators "\<lparr>data = one_cell 2\<rparr>"
        "\<lparr>data = one_cell 3\<rparr>" "\<lparr>data = one_cell 7\<rparr>"] shape by blast
  then show ?thesis
    using s by (simp add: one_cell_fun)
qed

section \<open>Properties of the preconditioner update\<close>

subsection \<open>The cell loop\<close>

text \<open>The loop returns when every index is within the four vectors; when it returns
  over distinct indices, it has added the two quotients at each of them and left
  everything else.\<close>

lemma update_cell_cell_block_returns:
  "\<forall>c\<in>set cs. c < length (cell dwc_dp) \<and> c < length (cell pres)
        \<and> c < length (Acc_cells P) \<and> c < length (Fc_cells P)
   \<Longrightarrow> \<exists>P'. update_cell_cell_block dwc_dp pres h cs P = Inr P'"
  by (induction cs arbitrary: P) (simp_all add: cell_at_def)

lemma update_cell_cell_block_result:
  "update_cell_cell_block dwc_dp pres h cs P = Inr P' \<Longrightarrow> distinct cs \<Longrightarrow>
     length (Acc_cells P') = length (Acc_cells P) \<and> length (Fc_cells P') = length (Fc_cells P)
     \<and> blocks P' = blocks P
     \<and> (\<forall>c\<in>set cs. c < length (cell dwc_dp) \<and> c < length (cell pres)
            \<and> c < length (Acc_cells P) \<and> c < length (Fc_cells P))
     \<and> (\<forall>c. Acc_cells P' ! c =
            (if c \<in> set cs then Acc_cells P ! c + cell dwc_dp ! c / h else Acc_cells P ! c))
     \<and> (\<forall>c. Fc_cells P' ! c =
            (if c \<in> set cs then Fc_cells P ! c + cell pres ! c * cell dwc_dp ! c / h
             else Fc_cells P ! c))"
proof (induction cs arbitrary: P)
  case Nil
  then show ?case by simp
next
  case (Cons c cs)
  let ?P1 = "P\<lparr>Acc_cells := (Acc_cells P)[c := Acc_cells P ! c + cell dwc_dp ! c / h],
               Fc_cells := (Fc_cells P)[c := Fc_cells P ! c + cell pres ! c * cell dwc_dp ! c / h]\<rparr>"
  from Cons.prems(1) have rng: "c < length (cell dwc_dp)" "c < length (cell pres)"
      "c < length (Acc_cells P)" "c < length (Fc_cells P)"
    and rest: "update_cell_cell_block dwc_dp pres h cs ?P1 = Inr P'"
    by (auto simp add: cell_at_def split: if_splits)
  from Cons.prems(2) have d: "distinct cs" and notin: "c \<notin> set cs" by simp_all
  note IH = Cons.IH [OF rest d]
  show ?case
    using IH rng notin by (auto simp add: nth_list_update)
qed

subsection \<open>The accumulation terms\<close>

lemma update_precon_accumulation_returns:
  assumes "length (cell (dwc_dp_field X pk)) \<le> length (cell (pres_field X pk))"
    and "length (cell (dwc_dp_field X pk)) \<le> length (Acc_cells (preconditioner pk))"
    and "length (cell (dwc_dp_field X pk)) \<le> length (Fc_cells (preconditioner pk))"
  shows "\<exists>pkA. update_precon_accumulation X h pk = Inr pkA"
proof -
  have "\<forall>c\<in>set [0..<length (cell (dwc_dp_field X pk))].
          c < length (cell (dwc_dp_field X pk)) \<and> c < length (cell (pres_field X pk))
          \<and> c < length (Acc_cells (preconditioner pk)) \<and> c < length (Fc_cells (preconditioner pk))"
    using assms by auto
  from update_cell_cell_block_returns [OF this, of h]
  show ?thesis
    by (auto simp add: update_precon_accumulation_def Let_def)
qed

lemma update_precon_accumulation_result:
  assumes "update_precon_accumulation X h pk = Inr pkA"
  shows "length (Acc_cells (preconditioner pkA)) = length (Acc_cells (preconditioner pk))
     \<and> length (Fc_cells (preconditioner pkA)) = length (Fc_cells (preconditioner pk))
     \<and> blocks (preconditioner pkA) = blocks (preconditioner pk)
     \<and> field_data (S_next pkA) = accumulation_fields X pk
     \<and> (\<forall>c. Acc_cells (preconditioner pkA) ! c =
            (if c < length (cell (dwc_dp_field X pk))
             then Acc_cells (preconditioner pk) ! c + cell (dwc_dp_field X pk) ! c / h
             else Acc_cells (preconditioner pk) ! c))
     \<and> (\<forall>c. Fc_cells (preconditioner pkA) ! c =
            (if c < length (cell (dwc_dp_field X pk))
             then Fc_cells (preconditioner pk) ! c
                    + cell (pres_field X pk) ! c * cell (dwc_dp_field X pk) ! c / h
             else Fc_cells (preconditioner pk) ! c))"
proof -
  let ?pk1 = "pk\<lparr>S_next := (S_next pk)\<lparr>field_data := accumulation_fields X pk\<rparr>\<rparr>"
  from assms obtain P where
    loop: "update_cell_cell_block (dwc_dp_field X pk) (pres_field X pk) h
             [0..<length (cell (dwc_dp_field X pk))] (preconditioner pk) = Inr P"
    and pkA: "pkA = ?pk1\<lparr>preconditioner := P\<rparr>"
    by (auto simp add: update_precon_accumulation_def Let_def split: sum.splits)
  from update_cell_cell_block_result [OF loop] show ?thesis
    by (simp add: pkA)
qed

text \<open>After the steps that build the operator, the field under the key is the iterate
  \<open>up\<close>, when \<^verbatim>\<open>solution_to_state\<close> stores the iterate under the key and the
  permeability update and the boundary conditions keep the key and that field.\<close>

lemma update_precon_operator_pressure:
  assumes store: "\<forall>S. field_data (PKDefaultBase_solution_to_state X up S) (pk_key pk) = data up"
    and perm: "\<forall>q. pk_key (UpdatePermeabilityData X q) = pk_key q
                 \<and> field_data (S_next (UpdatePermeabilityData X q)) (pk_key q)
                     = field_data (S_next q) (pk_key q)"
    and bcs: "\<forall>q. pk_key (UpdateBoundaryConditions X q) = pk_key q
                 \<and> field_data (S_next (UpdateBoundaryConditions X q)) (pk_key q)
                     = field_data (S_next q) (pk_key q)"
  shows "pk_key (update_precon_operator X up pk) = pk_key pk
       \<and> field_data (S_next (update_precon_operator X up pk)) (pk_key pk) = data up"
proof -
  define pk1 where "pk1 = pk\<lparr>S_next := PKDefaultBase_solution_to_state X up (S_next pk)\<rparr>"
  define pk2 where "pk2 = UpdatePermeabilityData X pk1"
  define pk4 where "pk4 = pk2\<lparr>bc_pressure := Compute X (time (S_next pk2)) (bc_pressure pk2),
                            bc_flux := Compute X (time (S_next pk2)) (bc_flux pk2)\<rparr>"
  define pk5 where "pk5 = UpdateBoundaryConditions X pk4"
  have k1: "pk_key pk1 = pk_key pk" and f1: "field_data (S_next pk1) (pk_key pk) = data up"
    using store by (simp_all add: pk1_def)
  have k2: "pk_key pk2 = pk_key pk" and f2: "field_data (S_next pk2) (pk_key pk) = data up"
    using perm [rule_format, of pk1] k1 f1 by (simp_all add: pk2_def)
  have k4: "pk_key pk4 = pk_key pk" and f4: "field_data (S_next pk4) (pk_key pk) = data up"
    using k2 f2 by (simp_all add: pk4_def)
  have k5: "pk_key pk5 = pk_key pk" and f5: "field_data (S_next pk5) (pk_key pk) = data up"
    using bcs [rule_format, of pk4] k4 f4 by (simp_all add: pk5_def)
  have "pk_key (update_precon_operator X up pk) = pk_key pk5"
    "S_next (update_precon_operator X up pk) = S_next pk5"
    by (simp_all add: update_precon_operator_def Let_def pk5_def pk4_def pk2_def pk1_def)
  then show ?thesis
    using k5 f5 by simp
qed

text \<open>
  Claim C5. In a call \<open>update_precon X t up h pk\<close> with a matching time stamp, let
  \<open>pkB\<close> be the kernel once the operator has been given its stiffness matrices,
  right-hand sides and gravity fluxes. The derivative \<open>dwc_dp\<close> and the pressure \<open>pres\<close>
  are the fields \<^verbatim>\<open>dwater_content_d<key>\<close> and \<^verbatim>\<open><key>\<close> of the table the field
  evaluator of the water content returns (\<^verbatim>\<open>HasFieldDerivativeChanged\<close>); nothing is
  recomputed in \<open>update_precon\<close>. The pressure is the iterate \<open>up\<close> of the call, given
  that \<^verbatim>\<open>solution_to_state\<close> stores the iterate under the key, that the permeability
  update and the boundary conditions keep the key and that field, and that the evaluator
  hands the field back as it is. For
  every cell \<open>c\<close> the call adds \<open>dwc_dp c / h\<close> to \<open>Acc_cells c\<close> and
  \<open>up c * dwc_dp c / h\<close> to \<open>Fc_cells c\<close>, leaves the rest of the operator, and hands the
  result to the boundary conditions and the assembly. The vectors cover the cells and
  \<open>h\<close> is not zero.
\<close>

theorem update_precon_adds_accumulation:
  assumes stamp: "time (S_next pk) = t"
    and store: "\<forall>S. field_data (PKDefaultBase_solution_to_state X up S) (pk_key pk) = data up"
    and perm: "\<forall>q. pk_key (UpdatePermeabilityData X q) = pk_key q
                 \<and> field_data (S_next (UpdatePermeabilityData X q)) (pk_key q)
                     = field_data (S_next q) (pk_key q)"
    and bcs: "\<forall>q. pk_key (UpdateBoundaryConditions X q) = pk_key q
                 \<and> field_data (S_next (UpdateBoundaryConditions X q)) (pk_key q)
                     = field_data (S_next q) (pk_key q)"
    and B: "pkB = update_precon_operator X up pk"
    and eval: "HasFieldDerivativeChanged X ''water_content'' (pk_name pkB) (pk_key pkB)
                 (S_next pkB) (pk_key pkB)
               = field_data (S_next pkB) (pk_key pkB)"
    and d: "dwc_dp = cell (dwc_dp_field X pkB)"
    and p: "pres = cell (pres_field X pkB)"
    and sizes: "length dwc_dp \<le> length pres"
               "length dwc_dp \<le> length (Acc_cells (preconditioner pkB))"
               "length dwc_dp \<le> length (Fc_cells (preconditioner pkB))"
    and h: "h \<noteq> 0"
  shows "\<exists>pkA. update_precon_accumulation X h pkB = Inr pkA
           \<and> update_precon X t up h pk = Inr (update_precon_assemble X pkA)
           \<and> pres = cell (data up)
           \<and> (\<forall>c<length dwc_dp.
                 Acc_cells (preconditioner pkA) ! c
                   = Acc_cells (preconditioner pkB) ! c + dwc_dp ! c / h
               \<and> Fc_cells (preconditioner pkA) ! c
                   = Fc_cells (preconditioner pkB) ! c + pres ! c * dwc_dp ! c / h
               \<and> Fc_cells (preconditioner pkA) ! c
                   = Fc_cells (preconditioner pkB) ! c + cell (data up) ! c * dwc_dp ! c / h)
           \<and> (\<forall>c. length dwc_dp \<le> c \<longrightarrow>
                 Acc_cells (preconditioner pkA) ! c = Acc_cells (preconditioner pkB) ! c
               \<and> Fc_cells (preconditioner pkA) ! c = Fc_cells (preconditioner pkB) ! c)
           \<and> length (Acc_cells (preconditioner pkA)) = length (Acc_cells (preconditioner pkB))
           \<and> length (Fc_cells (preconditioner pkA)) = length (Fc_cells (preconditioner pkB))
           \<and> blocks (preconditioner pkA) = blocks (preconditioner pkB)
           \<and> dwc_dp = cell (HasFieldDerivativeChanged X ''water_content'' (pk_name pkB) (pk_key pkB)
                             (S_next pkB) (''dwater_content_d'' @ pk_key pkB))
           \<and> pres = cell (HasFieldDerivativeChanged X ''water_content'' (pk_name pkB) (pk_key pkB)
                             (S_next pkB) (pk_key pkB))"
proof -
  obtain pkA where A: "update_precon_accumulation X h pkB = Inr pkA"
    using update_precon_accumulation_returns [of X pkB h] sizes by (auto simp add: d p)
  have call: "update_precon X t up h pk = Inr (update_precon_assemble X pkA)"
    using stamp A by (simp add: update_precon_def ASSERT_def B)
  note R = update_precon_accumulation_result [OF A]
  have fields: "dwc_dp = cell (HasFieldDerivativeChanged X ''water_content'' (pk_name pkB) (pk_key pkB)
                             (S_next pkB) (''dwater_content_d'' @ pk_key pkB))"
     "pres = cell (HasFieldDerivativeChanged X ''water_content'' (pk_name pkB) (pk_key pkB)
                             (S_next pkB) (pk_key pkB))"
    by (simp_all add: d p dwc_dp_field_def pres_field_def accumulation_fields_def)
  have key: "pk_key pkB = pk_key pk" and stored: "field_data (S_next pkB) (pk_key pk) = data up"
    using update_precon_operator_pressure [OF store perm bcs] by (simp_all add: B)
  have "pres = cell (field_data (S_next pkB) (pk_key pkB))"
    using eval by (simp add: fields(2))
  then have iterate: "pres = cell (data up)"
    by (simp add: key stored)
  have add: "Acc_cells (preconditioner pkA) ! c
                   = Acc_cells (preconditioner pkB) ! c + dwc_dp ! c / h
               \<and> Fc_cells (preconditioner pkA) ! c
                   = Fc_cells (preconditioner pkB) ! c + pres ! c * dwc_dp ! c / h
               \<and> Fc_cells (preconditioner pkA) ! c
                   = Fc_cells (preconditioner pkB) ! c + cell (data up) ! c * dwc_dp ! c / h"
    if "c < length dwc_dp" for c
  proof -
    have "Acc_cells (preconditioner pkA) ! c
                   = Acc_cells (preconditioner pkB) ! c + dwc_dp ! c / h
               \<and> Fc_cells (preconditioner pkA) ! c
                   = Fc_cells (preconditioner pkB) ! c + pres ! c * dwc_dp ! c / h"
      using R that by (simp add: d p)
    then show ?thesis
      using iterate by simp
  qed
  have keep: "Acc_cells (preconditioner pkA) ! c = Acc_cells (preconditioner pkB) ! c
               \<and> Fc_cells (preconditioner pkA) ! c = Fc_cells (preconditioner pkB) ! c"
    if "length dwc_dp \<le> c" for c
    using R that by (simp add: d p)
  show ?thesis
    using A call iterate add keep R fields by blast
qed

subsection \<open>The update on the one-cell configuration\<close>

lemma spec_operator:
  "update_precon_operator spec_collaborators up pk
     = pk\<lparr>S_next := spec_solution_to_state up (S_next pk),
          preconditioner := (preconditioner pk)
             \<lparr>Acc_cells := fst (blocks (preconditioner pk)),
              Fc_cells := snd (blocks (preconditioner pk))\<rparr>\<rparr>"
  by (simp add: update_precon_operator_def spec_collaborators_def Let_def)

lemma spec_assemble: "update_precon_assemble spec_collaborators pk = pk"
  by (simp add: update_precon_assemble_def spec_collaborators_def Let_def)

lemma spec_accumulation_fields: "accumulation_fields spec_collaborators pk = field_data (S_next pk)"
  by (simp add: accumulation_fields_def spec_collaborators_def)

text \<open>The fields the accumulation reads in the one-cell configuration once the iterate
  \<open>x\<close> is in the state.\<close>

lemma one_cell_fields:
  assumes "pk_key pk = ''pressure''"
    and "field_data (S_next pk) ''dwater_content_dpressure'' = one_cell d"
  shows "cell (dwc_dp_field spec_collaborators
                 (update_precon_operator spec_collaborators \<lparr>data = one_cell x\<rparr> pk)) = [d]"
    and "cell (pres_field spec_collaborators
                 (update_precon_operator spec_collaborators \<lparr>data = one_cell x\<rparr> pk)) = [x]"
  using assms
  by (simp_all add: dwc_dp_field_def pres_field_def spec_accumulation_fields spec_operator
      spec_solution_to_state_def one_cell_def)

lemma singleton_nth: "length xs = 1 \<Longrightarrow> xs ! 0 = x \<Longrightarrow> xs = [x]"
  by (cases xs) simp_all

text \<open>One cell whose state holds the pressure \<open>3\<close> and the derivative \<open>4\<close>, an operator
  built with the diagonal \<open>5\<close> and the right-hand side \<open>7\<close>, the iterate \<open>11\<close> and
  \<open>h = 1/2\<close>: the pressure read is the iterate, and the call leaves
  \<open>Acc_cells = [5 + 4 / (1/2)] = [13]\<close> and \<open>Fc_cells = [7 + 11 * 4 / (1/2)] = [95]\<close>.\<close>

theorem update_precon_adds_accumulation_witness:
  "time (S_next ((one_cell_pk 0 1 (1/100000) (1/10000) False 10)
                   \<lparr>S_next := one_cell_state 1 3 10 4\<rparr>)) = 1
   \<and> (\<forall>S. field_data (PKDefaultBase_solution_to_state spec_collaborators
                         \<lparr>data = one_cell 11\<rparr> S) ''pressure'' = data \<lparr>data = one_cell 11\<rparr>)
   \<and> cell (pres_field spec_collaborators
        (update_precon_operator spec_collaborators \<lparr>data = one_cell 11\<rparr>
           ((one_cell_pk 0 1 (1/100000) (1/10000) False 10)
              \<lparr>S_next := one_cell_state 1 3 10 4\<rparr>))) = [11]
   \<and> cell (dwc_dp_field spec_collaborators
        (update_precon_operator spec_collaborators \<lparr>data = one_cell 11\<rparr>
           ((one_cell_pk 0 1 (1/100000) (1/10000) False 10)
              \<lparr>S_next := one_cell_state 1 3 10 4\<rparr>))) = [4]
   \<and> Acc_cells (preconditioner
        (update_precon_operator spec_collaborators \<lparr>data = one_cell 11\<rparr>
           ((one_cell_pk 0 1 (1/100000) (1/10000) False 10)
              \<lparr>S_next := one_cell_state 1 3 10 4\<rparr>))) = [5]
   \<and> Fc_cells (preconditioner
        (update_precon_operator spec_collaborators \<lparr>data = one_cell 11\<rparr>
           ((one_cell_pk 0 1 (1/100000) (1/10000) False 10)
              \<lparr>S_next := one_cell_state 1 3 10 4\<rparr>))) = [7]
   \<and> (1/2::real) \<noteq> 0
   \<and> (\<exists>pk'. update_precon spec_collaborators 1 \<lparr>data = one_cell 11\<rparr> (1/2)
               ((one_cell_pk 0 1 (1/100000) (1/10000) False 10)
                  \<lparr>S_next := one_cell_state 1 3 10 4\<rparr>) = Inr pk'
           \<and> Acc_cells (preconditioner pk') = [13] \<and> Fc_cells (preconditioner pk') = [95])"
proof -
  let ?X = "spec_collaborators"
  let ?pk = "(one_cell_pk 0 1 (1/100000) (1/10000) False 10)\<lparr>S_next := one_cell_state 1 3 10 4\<rparr>"
  let ?up = "\<lparr>data = one_cell 11\<rparr>"
  let ?B = "update_precon_operator ?X ?up ?pk"
  have key: "pk_key ?pk = ''pressure''"
    by (simp add: one_cell_pk_def)
  have dfield: "field_data (S_next ?pk) ''dwater_content_dpressure'' = one_cell 4"
    by (simp add: one_cell_state_def)
  have stamp: "time (S_next ?pk) = 1"
    by (simp add: one_cell_state_def)
  have store: "\<forall>S. field_data (PKDefaultBase_solution_to_state ?X ?up S) (pk_key ?pk) = data ?up"
    by (simp add: key spec_collaborators_def spec_solution_to_state_def)
  have perm: "\<forall>q. pk_key (UpdatePermeabilityData ?X q) = pk_key q
                 \<and> field_data (S_next (UpdatePermeabilityData ?X q)) (pk_key q)
                     = field_data (S_next q) (pk_key q)"
    by (simp add: spec_collaborators_def)
  have bcs: "\<forall>q. pk_key (UpdateBoundaryConditions ?X q) = pk_key q
                 \<and> field_data (S_next (UpdateBoundaryConditions ?X q)) (pk_key q)
                     = field_data (S_next q) (pk_key q)"
    by (simp add: spec_collaborators_def)
  have eval: "HasFieldDerivativeChanged ?X ''water_content'' (pk_name ?B) (pk_key ?B)
                 (S_next ?B) (pk_key ?B)
               = field_data (S_next ?B) (pk_key ?B)"
    by (simp add: spec_collaborators_def)
  have d: "[4] = cell (dwc_dp_field ?X ?B)"
    and p: "[11] = cell (pres_field ?X ?B)"
    using one_cell_fields [OF key dfield, where x = 11] by simp_all
  have B: "Acc_cells (preconditioner ?B) = [5]" "Fc_cells (preconditioner ?B) = [7]"
    by (simp_all add: spec_operator one_cell_pk_def)
  have sizes: "length [4::real] \<le> length [11::real]"
    "length [4::real] \<le> length (Acc_cells (preconditioner ?B))"
    "length [4::real] \<le> length (Fc_cells (preconditioner ?B))"
    by (simp_all add: B)
  have h: "(1/2::real) \<noteq> 0" by simp
  obtain pkA where
    call: "update_precon ?X 1 ?up (1/2) ?pk = Inr (update_precon_assemble ?X pkA)"
    and vals: "\<forall>c<length [4::real].
                 Acc_cells (preconditioner pkA) ! c = Acc_cells (preconditioner ?B) ! c + [4] ! c / (1/2)
               \<and> Fc_cells (preconditioner pkA) ! c = Fc_cells (preconditioner ?B) ! c + [11] ! c * [4] ! c / (1/2)"
    and len: "length (Acc_cells (preconditioner pkA)) = length (Acc_cells (preconditioner ?B))"
             "length (Fc_cells (preconditioner pkA)) = length (Fc_cells (preconditioner ?B))"
    using update_precon_adds_accumulation [OF stamp store perm bcs refl eval d p sizes h] by blast
  have "Acc_cells (preconditioner pkA) = [13]"
    using vals len(1) by (intro singleton_nth) (simp_all add: B)
  moreover have "Fc_cells (preconditioner pkA) = [95]"
    using vals len(2) by (intro singleton_nth) (simp_all add: B)
  ultimately have run: "\<exists>pk'. update_precon ?X 1 ?up (1/2) ?pk = Inr pk'
           \<and> Acc_cells (preconditioner pk') = [13] \<and> Fc_cells (preconditioner pk') = [95]"
    using call by (simp add: spec_assemble)
  have store': "\<forall>S. field_data (PKDefaultBase_solution_to_state ?X ?up S) ''pressure'' = data ?up"
    using store by (simp add: key)
  show ?thesis
    using stamp store' p [symmetric] d [symmetric] B h run by blast
qed

end
